theory Spec2Isabelle
  imports Main
begin

section \<open>Time values\<close>

text \<open>
  The client keeps time with the \<^verbatim>\<open>avs_time_*\<close> value types of the avs\_commons
  library: a duration is a pair of a count of seconds and a count of nanoseconds, and it
  is valid when the nanoseconds lie in \<open>[0, 10^9)\<close>. A point of real time is a duration
  since the epoch. The library is not part of the sources under verification; its
  operations are modelled here from their documented contract, on mathematical integers
  (the 64-bit range of the seconds field is not modelled).
\<close>

record avs_time_duration_t =
  seconds :: int
  nanoseconds :: int

record avs_time_real_t =
  since_real_epoch :: avs_time_duration_t

definition NS_IN_S :: int where
  "NS_IN_S = 1000000000"

definition AVS_TIME_DURATION_ZERO :: avs_time_duration_t where
  "AVS_TIME_DURATION_ZERO = \<lparr>seconds = 0, nanoseconds = 0\<rparr>"

definition AVS_TIME_DURATION_INVALID :: avs_time_duration_t where
  "AVS_TIME_DURATION_INVALID = \<lparr>seconds = 0, nanoseconds = - 1\<rparr>"

definition AVS_TIME_REAL_INVALID :: avs_time_real_t where
  "AVS_TIME_REAL_INVALID = \<lparr>since_real_epoch = AVS_TIME_DURATION_INVALID\<rparr>"

definition avs_time_duration_valid :: "avs_time_duration_t \<Rightarrow> bool" where
  "avs_time_duration_valid d \<longleftrightarrow> 0 \<le> nanoseconds d \<and> nanoseconds d < NS_IN_S"

definition avs_time_real_valid :: "avs_time_real_t \<Rightarrow> bool" where
  "avs_time_real_valid t \<longleftrightarrow> avs_time_duration_valid (since_real_epoch t)"

text \<open>The length of a duration in nanoseconds, and the normalised duration of a length.\<close>

definition duration_ns :: "avs_time_duration_t \<Rightarrow> int" where
  "duration_ns d = seconds d * NS_IN_S + nanoseconds d"

definition duration_of_ns :: "int \<Rightarrow> avs_time_duration_t" where
  "duration_of_ns n = \<lparr>seconds = n div NS_IN_S, nanoseconds = n mod NS_IN_S\<rparr>"

text \<open>
  Modelled from the spec: \<^verbatim>\<open>avs_time_duration_less\<close> (avs\_commons, not in the
  sources). The comment at its call in \<^verbatim>\<open>_anjay_server_registration_expired\<close> states
  the contract: the comparison is false when either argument is invalid.
\<close>

definition avs_time_duration_less ::
  "avs_time_duration_t \<Rightarrow> avs_time_duration_t \<Rightarrow> bool" where
  "avs_time_duration_less a b \<longleftrightarrow>
     avs_time_duration_valid a \<and> avs_time_duration_valid b \<and>
     (seconds a < seconds b \<or> (seconds a = seconds b \<and> nanoseconds a < nanoseconds b))"

text \<open>
  Modelled from the spec: \<^verbatim>\<open>avs_time_duration_diff\<close> (avs\_commons, not in the
  sources): the normalised difference of two valid durations, invalid otherwise.
\<close>

definition avs_time_duration_diff ::
  "avs_time_duration_t \<Rightarrow> avs_time_duration_t \<Rightarrow> avs_time_duration_t" where
  "avs_time_duration_diff minuend subtrahend =
     (if avs_time_duration_valid minuend \<and> avs_time_duration_valid subtrahend
      then duration_of_ns (duration_ns minuend - duration_ns subtrahend)
      else AVS_TIME_DURATION_INVALID)"

text \<open>
  Modelled from the spec: \<^verbatim>\<open>avs_time_duration_add\<close> (avs\_commons, not in the
  sources): the normalised sum of two valid durations, invalid otherwise.
\<close>

definition avs_time_duration_add ::
  "avs_time_duration_t \<Rightarrow> avs_time_duration_t \<Rightarrow> avs_time_duration_t" where
  "avs_time_duration_add a b =
     (if avs_time_duration_valid a \<and> avs_time_duration_valid b
      then duration_of_ns (duration_ns a + duration_ns b)
      else AVS_TIME_DURATION_INVALID)"

text \<open>
  Modelled from the spec: \<^verbatim>\<open>avs_time_real_add\<close> (avs\_commons, not in the sources),
  as in the spec's "now + lifetime".
\<close>

definition avs_time_real_add :: "avs_time_real_t \<Rightarrow> avs_time_duration_t \<Rightarrow> avs_time_real_t" where
  "avs_time_real_add t d =
     \<lparr>since_real_epoch = avs_time_duration_add (since_real_epoch t) d\<rparr>"

text \<open>
  Modelled from the spec: \<^verbatim>\<open>avs_time_real_diff\<close> (avs\_commons, not in the sources):
  the duration between two points of real time.
\<close>

definition avs_time_real_diff :: "avs_time_real_t \<Rightarrow> avs_time_real_t \<Rightarrow> avs_time_duration_t" where
  "avs_time_real_diff a b = avs_time_duration_diff (since_real_epoch a) (since_real_epoch b)"

text \<open>
  Modelled from the spec: \<^verbatim>\<open>avs_time_duration_from_scalar\<close> with the unit
  \<^verbatim>\<open>AVS_TIME_S\<close> (avs\_commons, not in the sources): a whole number of seconds.
\<close>

definition avs_time_duration_from_scalar_s :: "int \<Rightarrow> avs_time_duration_t" where
  "avs_time_duration_from_scalar_s v = \<lparr>seconds = v, nanoseconds = 0\<rparr>"

text \<open>C's integer division, which truncates towards zero.\<close>

definition c_div :: "int \<Rightarrow> int \<Rightarrow> int" where
  "c_div a b = sgn a * sgn b * (\<bar>a\<bar> div \<bar>b\<bar>)"

text \<open>
  Modelled from the spec: \<^verbatim>\<open>avs_time_duration_div\<close> (avs\_commons, not in the
  sources): a valid duration divided by a non-zero integer, to the nanosecond; invalid
  for an invalid dividend or a zero divisor.
\<close>

definition avs_time_duration_div :: "avs_time_duration_t \<Rightarrow> int \<Rightarrow> avs_time_duration_t" where
  "avs_time_duration_div dividend divisor =
     (if \<not> avs_time_duration_valid dividend \<or> divisor = 0
      then AVS_TIME_DURATION_INVALID
      else duration_of_ns (c_div (duration_ns dividend) divisor))"

section \<open>Connection modes and binding modes\<close>

datatype anjay_connection_type_t =
  ANJAY_CONNECTION_UNSET | ANJAY_CONNECTION_UDP | ANJAY_CONNECTION_SMS

datatype anjay_server_connection_mode_t =
  ANJAY_CONNECTION_DISABLED | ANJAY_CONNECTION_ONLINE | ANJAY_CONNECTION_QUEUE

text \<open>
  C strings are modelled as the list of their characters before the terminating NUL.
  \<open>strchr\<close> returns the suffix that starts at the first occurrence of the character
  (the pointer the C function returns), or \<open>None\<close> for the null pointer. Reading the
  string at an index gives the terminator at the index just past the characters.
\<close>

primrec strchr :: "string \<Rightarrow> char \<Rightarrow> string option" where
  "strchr [] c = None"
| "strchr (x # xs) c = (if x = c then Some (x # xs) else strchr xs c)"

definition c_str_at :: "string \<Rightarrow> nat \<Rightarrow> char" where
  "c_str_at s i = (if i < length s then s ! i else CHR 0x00)"

text \<open>From \<^verbatim>\<open>src/src/servers_utils.c\<close>, \<^verbatim>\<open>_anjay_get_connection_mode\<close>.\<close>

definition anjay_get_connection_mode ::
  "string \<Rightarrow> anjay_connection_type_t \<Rightarrow> anjay_server_connection_mode_t" where
  "anjay_get_connection_mode binding_mode conn_type =
     (case (case conn_type of
              ANJAY_CONNECTION_UDP \<Rightarrow> Some (CHR ''U'')
            | ANJAY_CONNECTION_SMS \<Rightarrow> Some (CHR ''S'')
            | ANJAY_CONNECTION_UNSET \<Rightarrow> None) of
        None \<Rightarrow> ANJAY_CONNECTION_DISABLED
      | Some type_letter \<Rightarrow>
          (case strchr binding_mode type_letter of
             None \<Rightarrow> ANJAY_CONNECTION_DISABLED
           | Some type_letter_ptr \<Rightarrow>
               if c_str_at type_letter_ptr 1 = CHR ''Q''
               then ANJAY_CONNECTION_QUEUE
               else ANJAY_CONNECTION_ONLINE))"

text \<open>From \<^verbatim>\<open>src/src/utils_core.c\<close>, \<^verbatim>\<open>anjay_binding_mode_valid\<close>.\<close>

definition VALID_BINDINGS :: "string list" where
  "VALID_BINDINGS = [''U'', ''UQ'', ''S'', ''SQ'', ''US'', ''UQS'']"

fun binding_mode_valid_from :: "string \<Rightarrow> string list \<Rightarrow> bool" where
  "binding_mode_valid_from binding_mode [] = False"
| "binding_mode_valid_from binding_mode (v # vs) =
     (if binding_mode = v then True else binding_mode_valid_from binding_mode vs)"

definition anjay_binding_mode_valid :: "string \<Rightarrow> bool" where
  "anjay_binding_mode_valid binding_mode = binding_mode_valid_from binding_mode VALID_BINDINGS"

text \<open>
  From \<^verbatim>\<open>src/src/servers_utils.c\<close>, \<^verbatim>\<open>append_str\<close>. The output buffer is the string
  written so far together with its capacity in bytes. \<^verbatim>\<open>avs_simple_snprintf\<close> fails
  (a negative result) when the text and its terminator do not fit in the space left,
  and then leaves the text cut to that space; the write position moves on success only.
\<close>

definition append_str :: "nat \<Rightarrow> string \<Rightarrow> string \<Rightarrow> int \<times> string" where
  "append_str capacity written str =
     (if length str < capacity - length written
      then (0, written @ str)
      else (- 1, written @ take (capacity - length written - 1) str))"

text \<open>
  From \<^verbatim>\<open>src/src/servers_utils.c\<close>, \<^verbatim>\<open>binding_mode_from_connection_modes\<close>. The
  size of \<^verbatim>\<open>anjay_binding_mode_t\<close> is declared in a public header that is not in the
  sources, so it is the parameter \<open>capacity\<close>. The result is the returned code and the
  contents of the output buffer.
\<close>

definition binding_mode_from_connection_modes ::
  "nat \<Rightarrow> anjay_server_connection_mode_t \<Rightarrow> anjay_server_connection_mode_t \<Rightarrow> int \<times> string" where
  "binding_mode_from_connection_modes capacity udp_mode sms_mode =
     (let (udp_result, after_udp) =
            (case udp_mode of
               ANJAY_CONNECTION_ONLINE \<Rightarrow> append_str capacity [] ''U''
             | ANJAY_CONNECTION_QUEUE \<Rightarrow> append_str capacity [] ''UQ''
             | ANJAY_CONNECTION_DISABLED \<Rightarrow> (0, []))
      in if udp_result \<noteq> 0 then (- 1, after_udp)
         else
           (let (sms_result, out_binding_mode) =
                  (case sms_mode of
                     ANJAY_CONNECTION_ONLINE \<Rightarrow> append_str capacity after_udp ''S''
                   | ANJAY_CONNECTION_QUEUE \<Rightarrow> append_str capacity after_udp ''SQ''
                   | ANJAY_CONNECTION_DISABLED \<Rightarrow> (0, after_udp))
            in if sms_result \<noteq> 0 then (- 1, out_binding_mode)
               else (if anjay_binding_mode_valid out_binding_mode then 0 else - 1,
                     out_binding_mode)))"

section \<open>Server entries\<close>

text \<open>
  A socket is an object of the network library, named by its address; the connection
  that owns it is the only holder of the pointer, so the object's state is kept beside
  the address. The null pointer is \<open>None\<close>.
\<close>

datatype avs_net_socket_state_t = AVS_NET_SOCKET_STATE_CLOSED | AVS_NET_SOCKET_STATE_CONNECTED

record avs_net_abstract_socket_t =
  socket_address :: nat
  socket_state :: avs_net_socket_state_t

text \<open>
  From \<^verbatim>\<open>src/src/servers/connection_info.h\<close>. The field \<^verbatim>\<open>conn_socket_\<close> is
  written \<open>conn_socket\<close>.
\<close>

record anjay_server_connection_nontransient_state_t =
  preferred_endpoint :: string
  dtls_session_buffer :: string
  last_local_port :: string

record anjay_server_connection_t =
  conn_socket :: "avs_net_abstract_socket_t option"
  nontransient_state :: anjay_server_connection_nontransient_state_t
  mode :: anjay_server_connection_mode_t
  queue_mode_close_socket_clb_handle :: "nat option"

text \<open>
  The registration data and the server entry, with the fields the sources read and
  write (\<^verbatim>\<open>server->data_active.registration_info.expire_time\<close> and so on); the
  structure declarations themselves are in headers that are not in the sources. A short
  server id is a 16-bit unsigned number, kept as a natural number. A scheduler handle
  is \<open>None\<close> when no job is referenced.
\<close>

record anjay_update_parameters_t =
  lifetime_s :: int
  binding_mode :: string

record anjay_registration_info_t =
  endpoint_path :: "string list"
  last_update_params :: anjay_update_parameters_t
  expire_time :: avs_time_real_t

record anjay_server_data_active_t =
  primary_conn_type :: anjay_connection_type_t
  udp_connection :: anjay_server_connection_t
  sms_connection :: anjay_server_connection_t
  registration_info :: anjay_registration_info_t

record anjay_server_info_t =
  ssid :: nat
  next_action_handle :: "nat option"
  data_active :: anjay_server_data_active_t

text \<open>
  Modelled from the spec: \<^verbatim>\<open>_anjay_get_server_connection\<close> (not in the sources): the
  connection of a server entry for a transport; the null pointer for no transport.
\<close>

definition anjay_get_server_connection ::
  "anjay_server_info_t \<Rightarrow> anjay_connection_type_t \<Rightarrow> anjay_server_connection_t option" where
  "anjay_get_server_connection server conn_type =
     (case conn_type of
        ANJAY_CONNECTION_UDP \<Rightarrow> Some (udp_connection (data_active server))
      | ANJAY_CONNECTION_SMS \<Rightarrow> Some (sms_connection (data_active server))
      | ANJAY_CONNECTION_UNSET \<Rightarrow> None)"

text \<open>
  Modelled from the spec: \<^verbatim>\<open>_anjay_connection_is_online\<close> (declared in
  \<^verbatim>\<open>connection_info.h\<close>, defined outside the sources): the socket exists and is
  connected, the third state of the socket field's documentation ("the socket may exist
  and be online").
\<close>

definition anjay_connection_is_online :: "anjay_server_connection_t \<Rightarrow> bool" where
  "anjay_connection_is_online connection =
     (case conn_socket connection of
        None \<Rightarrow> False
      | Some socket \<Rightarrow> socket_state socket = AVS_NET_SOCKET_STATE_CONNECTED)"

text \<open>
  Modelled from the spec: \<^verbatim>\<open>_anjay_connection_get_online_socket\<close> (not in the
  sources): the address of the connection's socket when the connection is online, the
  null pointer otherwise.
\<close>

definition anjay_connection_get_online_socket ::
  "anjay_server_info_t \<Rightarrow> anjay_connection_type_t \<Rightarrow> nat option" where
  "anjay_connection_get_online_socket server conn_type =
     (case anjay_get_server_connection server conn_type of
        None \<Rightarrow> None
      | Some connection \<Rightarrow>
          if anjay_connection_is_online connection
          then map_option socket_address (conn_socket connection)
          else None)"

text \<open>
  Modelled from the spec: \<^verbatim>\<open>_anjay_server_active\<close> (not in the sources). The socket
  field's documentation in \<^verbatim>\<open>connection_info.h\<close> ties activity to the sockets: an
  inactive server has none, and a server "is still considered active if it has a
  created, but disconnected socket".
\<close>

definition anjay_server_active :: "anjay_server_info_t \<Rightarrow> bool" where
  "anjay_server_active server \<longleftrightarrow>
     conn_socket (udp_connection (data_active server)) \<noteq> None \<or>
     conn_socket (sms_connection (data_active server)) \<noteq> None"

text \<open>
  Modelled from the spec: the suspension of one connection (\<^verbatim>\<open>_anjay_connection_suspend\<close>
  is not in the sources): the socket is closed and kept, with the connection's
  non-transient state; a connection without a socket is left as it is.
\<close>

definition connection_suspend :: "anjay_server_connection_t \<Rightarrow> anjay_server_connection_t" where
  "connection_suspend connection =
     (case conn_socket connection of
        None \<Rightarrow> connection
      | Some socket \<Rightarrow>
          connection\<lparr>conn_socket := Some (socket\<lparr>socket_state := AVS_NET_SOCKET_STATE_CLOSED\<rparr>)\<rparr>)"

text \<open>
  Modelled from the spec: \<^verbatim>\<open>_anjay_connection_suspend\<close> (not in the sources):
  suspends the connection of the given transport, or every connection of the server
  for \<^verbatim>\<open>ANJAY_CONNECTION_UNSET\<close> ("all transports of this server").
\<close>

definition anjay_connection_suspend ::
  "anjay_server_info_t \<Rightarrow> anjay_connection_type_t \<Rightarrow> anjay_server_info_t" where
  "anjay_connection_suspend server conn_type =
     (let active = data_active server;
          udp = (if conn_type = ANJAY_CONNECTION_SMS then udp_connection active
                 else connection_suspend (udp_connection active));
          sms = (if conn_type = ANJAY_CONNECTION_UDP then sms_connection active
                 else connection_suspend (sms_connection active))
      in server\<lparr>data_active := active\<lparr>udp_connection := udp, sms_connection := sms\<rparr>\<rparr>)"

section \<open>Registration expiry\<close>

text \<open>
  Modelled from the spec: \<^verbatim>\<open>_anjay_register_time_remaining\<close> (not in the sources):
  the time from now to the expiry of the registration. The clock reading is the
  parameter \<open>now\<close>.
\<close>

definition anjay_register_time_remaining ::
  "avs_time_real_t \<Rightarrow> anjay_registration_info_t \<Rightarrow> avs_time_duration_t" where
  "anjay_register_time_remaining now info = avs_time_real_diff (expire_time info) now"

text \<open>From \<^verbatim>\<open>src/src/utils_core.c\<close>, \<^verbatim>\<open>_anjay_server_registration_info\<close>.\<close>

definition anjay_server_registration_info :: "anjay_server_info_t \<Rightarrow> anjay_registration_info_t" where
  "anjay_server_registration_info server = registration_info (data_active server)"

text \<open>From \<^verbatim>\<open>src/src/servers_utils.c\<close>, \<^verbatim>\<open>_anjay_server_registration_expired\<close>.\<close>

definition anjay_server_registration_expired :: "avs_time_real_t \<Rightarrow> anjay_server_info_t \<Rightarrow> bool" where
  "anjay_server_registration_expired now server =
     (let remaining = anjay_register_time_remaining now (anjay_server_registration_info server)
      in if \<not> avs_time_duration_less AVS_TIME_DURATION_ZERO remaining then True else False)"

text \<open>From \<^verbatim>\<open>src/src/utils_core.c\<close>, \<^verbatim>\<open>_anjay_server_primary_connection_valid\<close>.\<close>

definition anjay_server_primary_connection_valid :: "anjay_server_info_t \<Rightarrow> bool" where
  "anjay_server_primary_connection_valid server \<longleftrightarrow>
     primary_conn_type (data_active server) \<noteq> ANJAY_CONNECTION_UNSET \<and>
     anjay_connection_get_online_socket server (primary_conn_type (data_active server)) \<noteq> None"

text \<open>The assignment \<^verbatim>\<open>server->data_active.registration_info.expire_time = ...\<close>.\<close>

definition set_expire_time :: "avs_time_real_t \<Rightarrow> anjay_server_info_t \<Rightarrow> anjay_server_info_t" where
  "set_expire_time t server =
     server\<lparr>data_active := (data_active server)
       \<lparr>registration_info := (registration_info (data_active server))\<lparr>expire_time := t\<rparr>\<rparr>\<rparr>"

section \<open>The scheduler and the client object\<close>

text \<open>
  The scheduler is an external collaborator; its code is not in the sources. It holds
  the pending jobs, each under the handle it was issued with. The only job the functions
  below schedule is \<^verbatim>\<open>send_update_sched_job\<close>, with the server's short id as its
  argument.
\<close>

datatype anjay_sched_clb_t = Send_update_sched_job

record anjay_sched_entry_t =
  job_handle :: nat
  job_delay :: avs_time_duration_t
  job_clb :: anjay_sched_clb_t
  job_ssid :: nat

text \<open>
  Beside the pending jobs, the scheduler's state keeps the record of the calls made to
  it, in order: a cancel with the handle it was given, and a call of each of the two
  scheduling primitives with the short server id it was given.
\<close>

datatype anjay_sched_call_t =
  Sched_del "nat option"
  | Sched_schedule_first_retryable nat
  | Sched_schedule_next_retryable nat

record anjay_sched_t =
  entries :: "anjay_sched_entry_t list"
  next_handle :: nat
  sched_calls :: "anjay_sched_call_t list"




text \<open>
  The client object, with what the functions below use of it: the list of server
  entries, the scheduler, the offline flag that \<^verbatim>\<open>anjay_is_offline\<close> reads, and for
  each transport the value of
  \<^verbatim>\<open>avs_coap_max_transmit_wait(_anjay_tx_params_for_conn_type(anjay, conn_type))\<close>,
  which the CoAP library computes from the transmission parameters configured for the
  transport. A pointer to a server entry is its index in the list.
\<close>

record anjay_t =
  servers :: "anjay_server_info_t list"
  sched :: anjay_sched_t
  max_transmit_wait :: "anjay_connection_type_t \<Rightarrow> avs_time_duration_t"
  offline :: bool

section \<open>Scheduling the next Update\<close>

definition ANJAY_UPDATE_INTERVAL_MARGIN_FACTOR :: int where
  "ANJAY_UPDATE_INTERVAL_MARGIN_FACTOR = 2"

definition ANJAY_MIN_UPDATE_INTERVAL_S :: int where
  "ANJAY_MIN_UPDATE_INTERVAL_S = 1"

text \<open>From \<^verbatim>\<open>src/src/utils_core.c\<close>, \<^verbatim>\<open>get_server_update_interval_margin\<close>.\<close>

definition get_server_update_interval_margin ::
  "anjay_t \<Rightarrow> anjay_server_info_t \<Rightarrow> avs_time_duration_t" where
  "get_server_update_interval_margin anjay server =
     (let half_lifetime =
            avs_time_duration_div
              (avs_time_duration_from_scalar_s
                 (lifetime_s (last_update_params (registration_info (data_active server)))))
              ANJAY_UPDATE_INTERVAL_MARGIN_FACTOR;
          max_transmit_wait_v = max_transmit_wait anjay (primary_conn_type (data_active server))
      in if avs_time_duration_less half_lifetime max_transmit_wait_v
         then half_lifetime
         else max_transmit_wait_v)"

text \<open>
  From \<^verbatim>\<open>src/src/utils_core.c\<close>, \<^verbatim>\<open>schedule_next_update\<close>: the delay it computes and
  passes to \<^verbatim>\<open>schedule_update\<close>.
\<close>

definition next_update_delay ::
  "avs_time_real_t \<Rightarrow> anjay_t \<Rightarrow> anjay_server_info_t \<Rightarrow> avs_time_duration_t" where
  "next_update_delay now anjay server =
     (let remaining = anjay_register_time_remaining now (registration_info (data_active server));
          interval_margin = get_server_update_interval_margin anjay server;
          remaining = avs_time_duration_diff remaining interval_margin
      in if seconds remaining < ANJAY_MIN_UPDATE_INTERVAL_S
         then avs_time_duration_from_scalar_s ANJAY_MIN_UPDATE_INTERVAL_S
         else remaining)"








section \<open>Looking servers up\<close>

text \<open>
  What a handler of an iteration over the servers answers: continue, break, or an error
  code.
\<close>

datatype anjay_foreach_result_t = ANJAY_FOREACH_CONTINUE | ANJAY_FOREACH_BREAK | Foreach_error int

text \<open>
  Modelled from the spec: \<^verbatim>\<open>_anjay_servers_foreach_active\<close> (not in the sources):
  "iterate-active (supports early termination)". The handler is called on each active
  entry in list order, with the entry's index as the pointer to it and with the
  caller's argument record. A break ends the iteration with success, an error ends it
  with the error.
\<close>

fun servers_foreach_active_from ::
  "anjay_server_info_t list \<Rightarrow> nat
     \<Rightarrow> (nat \<Rightarrow> anjay_server_info_t \<Rightarrow> 'a \<Rightarrow> anjay_foreach_result_t \<times> 'a) \<Rightarrow> 'a \<Rightarrow> int \<times> 'a" where
  "servers_foreach_active_from [] i handler args = (0, args)"
| "servers_foreach_active_from (server # rest) i handler args =
     (if \<not> anjay_server_active server
      then servers_foreach_active_from rest (Suc i) handler args
      else (case handler i server args of
              (ANJAY_FOREACH_BREAK, args') \<Rightarrow> (0, args')
            | (ANJAY_FOREACH_CONTINUE, args') \<Rightarrow>
                servers_foreach_active_from rest (Suc i) handler args'
            | (Foreach_error e, args') \<Rightarrow> (e, args')))"

text \<open>
  Modelled from the spec: \<^verbatim>\<open>_anjay_servers_foreach_active\<close> on the client's list of
  servers.
\<close>

definition anjay_servers_foreach_active ::
  "anjay_t \<Rightarrow> (nat \<Rightarrow> anjay_server_info_t \<Rightarrow> 'a \<Rightarrow> anjay_foreach_result_t \<times> 'a) \<Rightarrow> 'a \<Rightarrow> int \<times> 'a" where
  "anjay_servers_foreach_active anjay handler args =
     servers_foreach_active_from (servers anjay) 0 handler args"

text \<open>
  From \<^verbatim>\<open>src/src/servers_utils.c\<close>, \<^verbatim>\<open>find_by_udp_socket_clb\<close> and
  \<^verbatim>\<open>_anjay_servers_find_by_udp_socket\<close>. The argument record is the socket looked for
  and the server found so far; pointers to sockets are addresses, \<open>None\<close> the null
  pointer. The function asserts that the socket it is given is not null.
\<close>

definition find_by_udp_socket_clb ::
  "nat \<Rightarrow> anjay_server_info_t \<Rightarrow> nat option \<times> nat option
     \<Rightarrow> anjay_foreach_result_t \<times> nat option \<times> nat option" where
  "find_by_udp_socket_clb i server args =
     (if anjay_connection_get_online_socket server ANJAY_CONNECTION_UDP = fst args
      then (ANJAY_FOREACH_BREAK, (fst args, Some i))
      else (ANJAY_FOREACH_CONTINUE, args))"

definition anjay_servers_find_by_udp_socket :: "anjay_t \<Rightarrow> nat option \<Rightarrow> nat option" where
  "anjay_servers_find_by_udp_socket anjay socket =
     (let (result, arg) = anjay_servers_foreach_active anjay find_by_udp_socket_clb (socket, None)
      in if result \<noteq> 0 then None else snd arg)"





section \<open>The registration protocol driver\<close>

text \<open>
  The exchanges with the server and the other operations of the transport and of the
  bootstrap module are defined outside the sources. They are parameters of the driver:
  each takes the server entry and gives its result code and the entry as it leaves it.
  The named codes the driver compares a result with are the constructors of the result
  types; the macros give them distinct non-zero numbers.
\<close>

datatype update_registration_retval_t =
  Update_registration_ok
  | ANJAY_REGISTRATION_UPDATE_REJECTED
  | AVS_COAP_CTX_ERR_NETWORK
  | Update_registration_other_error int

datatype register_retval_t = Register_ok | ANJAY_ERR_FORBIDDEN | Register_other_error int

record collaborators =
  update_registration :: "anjay_server_info_t \<Rightarrow> update_registration_retval_t \<times> anjay_server_info_t"
  needs_registration_update :: "anjay_server_info_t \<Rightarrow> bool"
  server_setup_primary_connection :: "anjay_server_info_t \<Rightarrow> int \<times> anjay_server_info_t"
  register_exchange :: "anjay_server_info_t \<Rightarrow> register_retval_t \<times> anjay_server_info_t"
  bootstrap_notify_regular_connection_available :: "anjay_server_info_t \<Rightarrow> anjay_server_info_t"
  bind_server_stream :: "anjay_server_info_t \<Rightarrow> anjay_connection_type_t \<Rightarrow> int \<times> anjay_server_info_t"
  deregister_exchange :: "anjay_server_info_t \<Rightarrow> string list \<Rightarrow> int \<times> anjay_server_info_t"
  release_server_stream_without_scheduling_queue :: "anjay_server_info_t \<Rightarrow> anjay_server_info_t"

text \<open>
  The driver's state is the server entry and the record of the calls made to the
  collaborators, in order.
\<close>

datatype external_call =
  Update_registration
  | Setup_primary_connection
  | Register
  | Bootstrap_notify
  | Bind_server_stream
  | Deregister
  | Release_server_stream

record driver_state =
  st_server :: anjay_server_info_t
  st_trace :: "external_call list"

datatype anjay_update_result_t =
  ANJAY_UPDATE_SUCCESS | ANJAY_UPDATE_NEEDS_REGISTRATION | ANJAY_UPDATE_FAILED

datatype anjay_registration_result_t =
  ANJAY_REGISTRATION_SUCCESS | ANJAY_REGISTRATION_FORBIDDEN | ANJAY_REGISTRATION_FAILED

text \<open>From \<^verbatim>\<open>src/src/utils_core.c\<close>, \<^verbatim>\<open>registration_update_with_ctx\<close>.\<close>

definition registration_update_with_ctx ::
  "collaborators \<Rightarrow> driver_state \<Rightarrow> anjay_update_result_t \<times> driver_state" where
  "registration_update_with_ctx ext st =
     (let (retval, server) = update_registration ext (st_server st);
          st1 = \<lparr>st_server = server, st_trace = st_trace st @ [Update_registration]\<rparr>
      in case retval of
           Update_registration_ok \<Rightarrow> (ANJAY_UPDATE_SUCCESS, st1)
         | ANJAY_REGISTRATION_UPDATE_REJECTED \<Rightarrow>
             (ANJAY_UPDATE_NEEDS_REGISTRATION,
              st1\<lparr>st_server := set_expire_time AVS_TIME_REAL_INVALID server\<rparr>)
         | AVS_COAP_CTX_ERR_NETWORK \<Rightarrow>
             (ANJAY_UPDATE_FAILED,
              st1\<lparr>st_server :=
                    anjay_connection_suspend server (primary_conn_type (data_active server))\<rparr>)
         | Update_registration_other_error e \<Rightarrow> (ANJAY_UPDATE_FAILED, st1))"

text \<open>
  From \<^verbatim>\<open>src/src/utils_core.c\<close>, \<^verbatim>\<open>ensure_valid_registration_with_ctx\<close>, in its two
  parts: the computation of \<^verbatim>\<open>update_result\<close>, and the switch on it.
\<close>

definition ensure_valid_registration_update_result ::
  "collaborators \<Rightarrow> avs_time_real_t \<Rightarrow> driver_state \<Rightarrow> anjay_update_result_t \<times> driver_state" where
  "ensure_valid_registration_update_result ext now st =
     (if \<not> anjay_server_primary_connection_valid (st_server st)
      then (ANJAY_UPDATE_NEEDS_REGISTRATION,
            st\<lparr>st_server := set_expire_time AVS_TIME_REAL_INVALID (st_server st)\<rparr>)
      else if anjay_server_registration_expired now (st_server st)
      then (ANJAY_UPDATE_NEEDS_REGISTRATION, st)
      else if \<not> needs_registration_update ext (st_server st)
      then (ANJAY_UPDATE_SUCCESS, st)
      else registration_update_with_ctx ext st)"

definition ensure_valid_registration_with_ctx ::
  "collaborators \<Rightarrow> avs_time_real_t \<Rightarrow> driver_state \<Rightarrow> anjay_registration_result_t \<times> driver_state" where
  "ensure_valid_registration_with_ctx ext now st =
     (let (update_result, st1) = ensure_valid_registration_update_result ext now st
      in case update_result of
           ANJAY_UPDATE_SUCCESS \<Rightarrow> (ANJAY_REGISTRATION_SUCCESS, st1)
         | ANJAY_UPDATE_NEEDS_REGISTRATION \<Rightarrow>
             (let (setup_failed, st2) =
                    (if \<not> anjay_server_primary_connection_valid (st_server st1)
                     then (let (r, server) = server_setup_primary_connection ext (st_server st1)
                           in (r \<noteq> 0,
                               \<lparr>st_server = server,
                                st_trace = st_trace st1 @ [Setup_primary_connection]\<rparr>))
                     else (False, st1))
              in if setup_failed then (ANJAY_REGISTRATION_FAILED, st2)
                 else
                   (let (retval, server) = register_exchange ext (st_server st2);
                        st3 = \<lparr>st_server = server, st_trace = st_trace st2 @ [Register]\<rparr>
                    in case retval of
                         ANJAY_ERR_FORBIDDEN \<Rightarrow> (ANJAY_REGISTRATION_FORBIDDEN, st3)
                       | Register_other_error e \<Rightarrow> (ANJAY_REGISTRATION_FAILED, st3)
                       | Register_ok \<Rightarrow>
                           (ANJAY_REGISTRATION_SUCCESS,
                            \<lparr>st_server =
                               bootstrap_notify_regular_connection_available ext server,
                             st_trace = st_trace st3 @ [Bootstrap_notify]\<rparr>)))
         | ANJAY_UPDATE_FAILED \<Rightarrow> (ANJAY_REGISTRATION_FAILED, st1))"



section \<open>Validation of the Server object\<close>

text \<open>
  The instance of the Server object, with the fields \<^verbatim>\<open>validate_instance\<close> reads
  (its declaration is in a header that is not in the sources). The binding is a pointer
  to a string, null when the resource has no value.
\<close>

record server_instance_data_t =
  data_ssid :: nat
  data_binding :: "string option"
  data_lifetime :: int
  data_default_max_period :: int

record server_instance_t =
  iid :: nat
  has_ssid :: bool
  has_lifetime :: bool
  has_notification_storing :: bool
  data :: server_instance_data_t

text \<open>From \<^verbatim>\<open>src/modules/server/src/server_transaction.c\<close>, \<^verbatim>\<open>validate_instance\<close>.\<close>

definition validate_instance :: "server_instance_t \<Rightarrow> int" where
  "validate_instance it =
     (if \<not> has_ssid it then - 1
      else if data_binding (data it) = None then - 1
      else if \<not> has_lifetime it then - 1
      else if \<not> has_notification_storing it then - 1
      else if data_lifetime (data it) \<le> 0 then - 1
      else if data_default_max_period (data it) = 0 then - 1
      else if \<not> anjay_binding_mode_valid (the (data_binding (data it))) then - 1
      else 0)"

text \<open>
  From the same file, \<^verbatim>\<open>ssid_cmp\<close>: the difference of the two short server ids, as
  C computes it after promoting both to \<^verbatim>\<open>int\<close>.
\<close>

definition ssid_cmp :: "nat \<Rightarrow> nat \<Rightarrow> int" where
  "ssid_cmp a b = int a - int b"

text \<open>
  Modelled from the spec: \<^verbatim>\<open>AVS_LIST_SORT\<close> (avs\_commons, not in the sources): the
  list in ascending order of the comparator, equal elements in their first order.
\<close>

fun list_insert_sorted :: "('a \<Rightarrow> 'a \<Rightarrow> int) \<Rightarrow> 'a \<Rightarrow> 'a list \<Rightarrow> 'a list" where
  "list_insert_sorted cmp x [] = [x]"
| "list_insert_sorted cmp x (y # ys) =
     (if cmp x y \<le> 0 then x # y # ys else y # list_insert_sorted cmp x ys)"

definition AVS_LIST_SORT :: "('a \<Rightarrow> 'a \<Rightarrow> int) \<Rightarrow> 'a list \<Rightarrow> 'a list" where
  "AVS_LIST_SORT cmp xs = foldr (list_insert_sorted cmp) xs []"

text \<open>
  From \<^verbatim>\<open>src/modules/server/src/server_transaction.c\<close>, \<^verbatim>\<open>_anjay_serv_object_validate\<close>.
  The first loop collects the short server ids, each inserted at the head of
  \<^verbatim>\<open>seen_ssids\<close>; \<open>alloc_ok n\<close> says whether the allocation of the list element
  succeeds when \<open>n\<close> ids have been collected. The second loop walks the sorted list with
  the pointers \<^verbatim>\<open>prev\<close> and \<^verbatim>\<open>next\<close>; it is reached with a non-empty list only,
  since the function returns at once for an object with no instance and the first loop
  ends without an error only after it has collected the id of every instance.
\<close>

datatype validate_result_t = Validate_ok | ANJAY_ERR_BAD_REQUEST | ANJAY_ERR_INTERNAL

fun collect_seen_ssids ::
  "(nat \<Rightarrow> bool) \<Rightarrow> server_instance_t list \<Rightarrow> nat list \<Rightarrow> validate_result_t \<times> nat list" where
  "collect_seen_ssids alloc_ok [] seen_ssids = (Validate_ok, seen_ssids)"
| "collect_seen_ssids alloc_ok (it # rest) seen_ssids =
     (if validate_instance it \<noteq> 0 then (ANJAY_ERR_BAD_REQUEST, seen_ssids)
      else if \<not> alloc_ok (length seen_ssids) then (ANJAY_ERR_INTERNAL, seen_ssids)
      else collect_seen_ssids alloc_ok rest (data_ssid (data it) # seen_ssids))"

fun duplicate_after :: "nat \<Rightarrow> nat list \<Rightarrow> validate_result_t" where
  "duplicate_after prev [] = Validate_ok"
| "duplicate_after prev (next # rest) =
     (if prev = next then ANJAY_ERR_BAD_REQUEST else duplicate_after next rest)"

definition anjay_serv_object_validate :: "(nat \<Rightarrow> bool) \<Rightarrow> server_instance_t list \<Rightarrow> validate_result_t" where
  "anjay_serv_object_validate alloc_ok instances =
     (if instances = [] then Validate_ok
      else
        (let (result, seen_ssids) = collect_seen_ssids alloc_ok instances []
         in if result = Validate_ok
            then (case AVS_LIST_SORT ssid_cmp seen_ssids of
                    [] \<Rightarrow> Validate_ok
                  | prev # rest \<Rightarrow> duplicate_after prev rest)
            else result))"

text \<open>
  The rules of the specification for one instance, in its words: the SSID, Binding,
  Lifetime and Notification-Storing resources are present, the Lifetime is positive,
  the Default-Max-Period is not zero, and the Binding is one of the valid strings. The
  theorems compare \<open>validate_instance\<close> with it.
\<close>

definition instance_acceptable :: "server_instance_t \<Rightarrow> bool" where
  "instance_acceptable it \<longleftrightarrow>
     has_ssid it \<and> data_binding (data it) \<noteq> None \<and> has_lifetime it
     \<and> has_notification_storing it
     \<and> 0 < data_lifetime (data it)
     \<and> data_default_max_period (data it) \<noteq> 0
     \<and> data_binding (data it) \<in> Some ` set VALID_BINDINGS"

text \<open>Two instances that pass validation, with the short server ids 1 and 2.\<close>

definition instance_one :: server_instance_t where
  "instance_one =
     \<lparr>iid = 0, has_ssid = True, has_lifetime = True, has_notification_storing = True,
      data = \<lparr>data_ssid = 1, data_binding = Some ''U'', data_lifetime = 86400,
              data_default_max_period = - 1\<rparr>\<rparr>"

definition instance_two :: server_instance_t where
  "instance_two =
     \<lparr>iid = 1, has_ssid = True, has_lifetime = True, has_notification_storing = True,
      data = \<lparr>data_ssid = 2, data_binding = Some ''UQS'', data_lifetime = 60,
              data_default_max_period = 10\<rparr>\<rparr>"

section \<open>The Update job\<close>














section \<open>Sequences of scheduling events\<close>








section \<open>Recording a registration\<close>

text \<open>
  From \<^verbatim>\<open>src/src/utils_core.c\<close>, \<^verbatim>\<open>get_registration_expire_time\<close> and
  \<^verbatim>\<open>_anjay_server_update_registration_info\<close>. The clock reading is the parameter
  \<open>now\<close>; a null \<^verbatim>\<open>move_endpoint_path\<close> or \<^verbatim>\<open>move_params\<close> is \<open>None\<close>.
\<close>

definition get_registration_expire_time :: "avs_time_real_t \<Rightarrow> int \<Rightarrow> avs_time_real_t" where
  "get_registration_expire_time now lifetime =
     avs_time_real_add now (avs_time_duration_from_scalar_s lifetime)"

definition anjay_server_update_registration_info ::
  "avs_time_real_t \<Rightarrow> anjay_server_info_t \<Rightarrow> string list option \<Rightarrow> anjay_update_parameters_t option
     \<Rightarrow> anjay_server_info_t" where
  "anjay_server_update_registration_info now server move_endpoint_path move_params =
     (let info = registration_info (data_active server);
          info1 = (case move_endpoint_path of
                     None \<Rightarrow> info
                   | Some path \<Rightarrow> info\<lparr>endpoint_path := path\<rparr>);
          info2 = (case move_params of
                     None \<Rightarrow> info1
                   | Some params \<Rightarrow> info1\<lparr>last_update_params := params\<rparr>);
          info3 = info2\<lparr>expire_time :=
                     get_registration_expire_time now (lifetime_s (last_update_params info2))\<rparr>
      in server\<lparr>data_active := (data_active server)\<lparr>registration_info := info3\<rparr>\<rparr>)"

section \<open>The test fixture\<close>

text \<open>
  From \<^verbatim>\<open>src/test/src/dm.c\<close>, \<^verbatim>\<open>_anjay_test_dm_install_socket\<close>: a new, zeroed
  server entry is inserted at the head of the list, with the given short id, a created
  and connected UDP socket, the UDP connection online and primary, and the seconds of
  the expiry time set to \<^verbatim>\<open>INT64_MAX\<close>. The address of the mock socket is a parameter.
\<close>

definition zeroed_connection :: anjay_server_connection_t where
  "zeroed_connection =
     \<lparr>conn_socket = None,
      nontransient_state =
        \<lparr>preferred_endpoint = [], dtls_session_buffer = [], last_local_port = []\<rparr>,
      mode = ANJAY_CONNECTION_DISABLED,
      queue_mode_close_socket_clb_handle = None\<rparr>"

definition INT64_MAX :: int where
  "INT64_MAX = 9223372036854775807"

definition anjay_test_dm_install_socket :: "anjay_t \<Rightarrow> nat \<Rightarrow> nat \<Rightarrow> anjay_t" where
  "anjay_test_dm_install_socket anjay ssid_arg address =
     anjay\<lparr>servers :=
       \<lparr>ssid = ssid_arg,
        next_action_handle = None,
        data_active =
          \<lparr>primary_conn_type = ANJAY_CONNECTION_UDP,
           udp_connection = zeroed_connection
             \<lparr>conn_socket := Some \<lparr>socket_address = address,
                                  socket_state = AVS_NET_SOCKET_STATE_CONNECTED\<rparr>,
              mode := ANJAY_CONNECTION_ONLINE\<rparr>,
           sms_connection = zeroed_connection,
           registration_info =
             \<lparr>endpoint_path = [],
              last_update_params = \<lparr>lifetime_s = 0, binding_mode = []\<rparr>,
              expire_time = \<lparr>since_real_epoch = \<lparr>seconds = INT64_MAX, nanoseconds = 0\<rparr>\<rparr>\<rparr>\<rparr>\<rparr>
       # servers anjay\<rparr>"

text \<open>
  A client with no server and no pending job, whose transports both have the CoAP
  default \<^verbatim>\<open>MAX_TRANSMIT_WAIT\<close> of 93 seconds; the client after the fixture has
  installed server 1 with a socket at address 1252; and that server after a
  registration with a lifetime of 60 seconds has been recorded at second 1000.
\<close>

definition fresh_anjay :: anjay_t where
  "fresh_anjay =
     \<lparr>servers = [],
      sched = \<lparr>entries = [], next_handle = 0, sched_calls = []\<rparr>,
      max_transmit_wait = (\<lambda>conn_type. avs_time_duration_from_scalar_s 93),
      offline = False\<rparr>"

definition fixture_anjay :: anjay_t where
  "fixture_anjay = anjay_test_dm_install_socket fresh_anjay 1 1252"

definition fixture_now :: avs_time_real_t where
  "fixture_now = \<lparr>since_real_epoch = avs_time_duration_from_scalar_s 1000\<rparr>"

definition registered_server :: anjay_server_info_t where
  "registered_server =
     anjay_server_update_registration_info fixture_now (servers fixture_anjay ! 0) None
       (Some \<lparr>lifetime_s = 60, binding_mode = ''U''\<rparr>)"

text \<open>
  Collaborators that answer every call with a fixed code and leave the server entry as
  it is, and the driver's state for the registered server of the fixture before any
  call.
\<close>

definition scripted_collaborators ::
  "update_registration_retval_t \<Rightarrow> int \<Rightarrow> register_retval_t \<Rightarrow> int \<Rightarrow> int \<Rightarrow> collaborators" where
  "scripted_collaborators update_code setup_code register_code bind_code deregister_code =
     \<lparr>update_registration = (\<lambda>server. (update_code, server)),
      needs_registration_update = (\<lambda>server. True),
      server_setup_primary_connection = (\<lambda>server. (setup_code, server)),
      register_exchange = (\<lambda>server. (register_code, server)),
      bootstrap_notify_regular_connection_available = (\<lambda>server. server),
      bind_server_stream = (\<lambda>server conn_type. (bind_code, server)),
      deregister_exchange = (\<lambda>server path. (deregister_code, server)),
      release_server_stream_without_scheduling_queue = (\<lambda>server. server)\<rparr>"

definition registered_state :: driver_state where
  "registered_state = \<lparr>st_server = registered_server, st_trace = []\<rparr>"

text \<open>
  The same server after its UDP connection has been suspended, and after its primary
  transport has been unset.
\<close>

definition suspended_state :: driver_state where
  "suspended_state =
     \<lparr>st_server = anjay_connection_suspend registered_server ANJAY_CONNECTION_UDP,
      st_trace = []\<rparr>"


text \<open>
  A client with two servers: the fixture installs server 2 with a socket at address 77
  in front of server 1, and the UDP connection of server 2 is then suspended.
\<close>

definition two_server_anjay :: anjay_t where
  "two_server_anjay =
     (let anjay = anjay_test_dm_install_socket fixture_anjay 2 77
      in anjay\<lparr>servers :=
           (servers anjay)[0 := anjay_connection_suspend (servers anjay ! 0) ANJAY_CONNECTION_UDP]\<rparr>)"



section \<open>Facts about time values\<close>

lemma duration_of_ns_valid: "avs_time_duration_valid (duration_of_ns n)"
  by (simp add: avs_time_duration_valid_def duration_of_ns_def NS_IN_S_def)

lemma duration_ns_of_ns: "duration_ns (duration_of_ns n) = n"
  by (simp add: duration_ns_def duration_of_ns_def)

lemma duration_of_ns_ns: "avs_time_duration_valid d \<Longrightarrow> duration_of_ns (duration_ns d) = d"
  by (simp add: duration_ns_def duration_of_ns_def avs_time_duration_valid_def NS_IN_S_def)

lemma seconds_duration_of_ns: "seconds (duration_of_ns n) = n div NS_IN_S"
  by (simp add: duration_of_ns_def)

lemma avs_time_duration_less_ns:
  assumes "avs_time_duration_valid a" "avs_time_duration_valid b"
  shows "avs_time_duration_less a b \<longleftrightarrow> duration_ns a < duration_ns b"
proof -
  have a: "0 \<le> nanoseconds a" "nanoseconds a < 1000000000"
    and b: "0 \<le> nanoseconds b" "nanoseconds b < 1000000000"
    using assms by (simp_all add: avs_time_duration_valid_def NS_IN_S_def)
  show ?thesis
    using assms a b
    unfolding avs_time_duration_less_def duration_ns_def NS_IN_S_def
    by (auto; linarith?)
qed

lemma invalid_not_valid: "\<not> avs_time_duration_valid AVS_TIME_DURATION_INVALID"
  by (simp add: avs_time_duration_valid_def AVS_TIME_DURATION_INVALID_def NS_IN_S_def)

lemma zero_valid:
  "avs_time_duration_valid AVS_TIME_DURATION_ZERO" "duration_ns AVS_TIME_DURATION_ZERO = 0"
  by (simp_all add: avs_time_duration_valid_def AVS_TIME_DURATION_ZERO_def NS_IN_S_def
      duration_ns_def)

lemma time_remaining_valid:
  assumes "avs_time_real_valid (expire_time info)" and "avs_time_real_valid now"
  shows "avs_time_duration_valid (anjay_register_time_remaining now info)"
    and "duration_ns (anjay_register_time_remaining now info) =
           duration_ns (since_real_epoch (expire_time info)) - duration_ns (since_real_epoch now)"
  using assms
  by (simp_all add: anjay_register_time_remaining_def avs_time_real_diff_def
      avs_time_duration_diff_def avs_time_real_valid_def duration_of_ns_valid duration_ns_of_ns)

section \<open>Facts about the test fixture\<close>

lemma registered_server_eq:
  "registered_server =
     \<lparr>ssid = 1, next_action_handle = None,
      data_active =
        \<lparr>primary_conn_type = ANJAY_CONNECTION_UDP,
         udp_connection =
           \<lparr>conn_socket = Some \<lparr>socket_address = 1252,
                                 socket_state = AVS_NET_SOCKET_STATE_CONNECTED\<rparr>,
            nontransient_state =
              \<lparr>preferred_endpoint = [], dtls_session_buffer = [], last_local_port = []\<rparr>,
            mode = ANJAY_CONNECTION_ONLINE,
            queue_mode_close_socket_clb_handle = None\<rparr>,
         sms_connection =
           \<lparr>conn_socket = None,
            nontransient_state =
              \<lparr>preferred_endpoint = [], dtls_session_buffer = [], last_local_port = []\<rparr>,
            mode = ANJAY_CONNECTION_DISABLED,
            queue_mode_close_socket_clb_handle = None\<rparr>,
         registration_info =
           \<lparr>endpoint_path = [],
            last_update_params = \<lparr>lifetime_s = 60, binding_mode = ''U''\<rparr>,
            expire_time = \<lparr>since_real_epoch = \<lparr>seconds = 1060, nanoseconds = 0\<rparr>\<rparr>\<rparr>\<rparr>\<rparr>"
  by (simp add: registered_server_def fixture_anjay_def fixture_now_def fresh_anjay_def
      anjay_test_dm_install_socket_def zeroed_connection_def
      anjay_server_update_registration_info_def get_registration_expire_time_def
      avs_time_real_add_def avs_time_duration_add_def avs_time_duration_from_scalar_s_def
      avs_time_duration_valid_def duration_ns_def duration_of_ns_def NS_IN_S_def Let_def)

lemma fixture_max_transmit_wait:
  "max_transmit_wait fixture_anjay conn_type = \<lparr>seconds = 93, nanoseconds = 0\<rparr>"
  by (simp add: fixture_anjay_def fresh_anjay_def anjay_test_dm_install_socket_def
      avs_time_duration_from_scalar_s_def)

section \<open>The delay of the next Update\<close>

lemma half_lifetime_ns:
  assumes "0 < L"
  shows "avs_time_duration_div (avs_time_duration_from_scalar_s L)
           ANJAY_UPDATE_INTERVAL_MARGIN_FACTOR = duration_of_ns (L * NS_IN_S div 2)"
proof -
  have v: "avs_time_duration_valid (avs_time_duration_from_scalar_s L)"
    by (simp add: avs_time_duration_valid_def avs_time_duration_from_scalar_s_def NS_IN_S_def)
  have n: "duration_ns (avs_time_duration_from_scalar_s L) = L * NS_IN_S"
    by (simp add: duration_ns_def avs_time_duration_from_scalar_s_def)
  have "0 < L * NS_IN_S" using assms by (simp add: NS_IN_S_def)
  then have "c_div (L * NS_IN_S) 2 = L * NS_IN_S div 2"
    by (simp add: c_div_def)
  then show ?thesis
    using v n by (simp add: avs_time_duration_div_def ANJAY_UPDATE_INTERVAL_MARGIN_FACTOR_def)
qed

lemma margin_ns:
  assumes L: "0 < lifetime_s (last_update_params (registration_info (data_active server)))"
    and w: "avs_time_duration_valid
              (max_transmit_wait anjay (primary_conn_type (data_active server)))"
  shows "get_server_update_interval_margin anjay server =
           duration_of_ns
             (min (lifetime_s (last_update_params (registration_info (data_active server)))
                     * NS_IN_S div 2)
                  (duration_ns (max_transmit_wait anjay (primary_conn_type (data_active server)))))"
  using w
  by (simp add: get_server_update_interval_margin_def half_lifetime_ns [OF L] Let_def
      avs_time_duration_less_ns duration_of_ns_valid duration_ns_of_ns min_def duration_of_ns_ns)

lemma floor_ns:
  "(if seconds (duration_of_ns n) < ANJAY_MIN_UPDATE_INTERVAL_S
    then avs_time_duration_from_scalar_s ANJAY_MIN_UPDATE_INTERVAL_S
    else duration_of_ns n) = duration_of_ns (max NS_IN_S n)"
proof -
  have "n div NS_IN_S < 1 \<longleftrightarrow> n < NS_IN_S"
    using pos_imp_zdiv_pos_iff [of NS_IN_S n] by (auto simp: NS_IN_S_def)
  moreover have "avs_time_duration_from_scalar_s 1 = duration_of_ns NS_IN_S"
    by (simp add: avs_time_duration_from_scalar_s_def duration_of_ns_def NS_IN_S_def)
  ultimately show ?thesis
    by (simp add: seconds_duration_of_ns ANJAY_MIN_UPDATE_INTERVAL_S_def max_def)
qed

lemma next_update_delay_ns:
  assumes L: "0 < lifetime_s (last_update_params (registration_info (data_active server)))"
    and w: "avs_time_duration_valid
              (max_transmit_wait anjay (primary_conn_type (data_active server)))"
    and e: "avs_time_real_valid (expire_time (registration_info (data_active server)))"
    and n: "avs_time_real_valid now"
  shows "next_update_delay now anjay server =
           duration_of_ns (max NS_IN_S
             (duration_ns (anjay_register_time_remaining now
                             (registration_info (data_active server)))
              - min (lifetime_s (last_update_params (registration_info (data_active server)))
                       * NS_IN_S div 2)
                    (duration_ns
                       (max_transmit_wait anjay (primary_conn_type (data_active server))))))"
proof -
  have d: "avs_time_duration_diff
             (anjay_register_time_remaining now (registration_info (data_active server)))
             (get_server_update_interval_margin anjay server)
           = duration_of_ns
               (duration_ns (anjay_register_time_remaining now
                               (registration_info (data_active server)))
                - min (lifetime_s (last_update_params (registration_info (data_active server)))
                         * NS_IN_S div 2)
                      (duration_ns
                         (max_transmit_wait anjay (primary_conn_type (data_active server)))))"
    using time_remaining_valid(1) [OF e n]
    by (simp add: margin_ns [OF L w] avs_time_duration_diff_def duration_of_ns_valid
        duration_ns_of_ns)
  show ?thesis
    unfolding next_update_delay_def Let_def d by (rule floor_ns)
qed

text \<open>
  C1 (the claim as stated fails). For the server of the fixture, registered with a
  lifetime of 60 seconds and 60 seconds before its expiry, on a transport whose maximum
  transmit wait is 93 seconds, the margin is 30 seconds, which is half the lifetime and
  more than a quarter of it, and the delay of the next Update is 30 seconds, not the 45
  seconds that a margin of a quarter of the lifetime would give.
\<close>

theorem margin_exceeds_quarter_lifetime:
  "lifetime_s (last_update_params (registration_info (data_active registered_server))) = 60
   \<and> max_transmit_wait fixture_anjay (primary_conn_type (data_active registered_server))
       = \<lparr>seconds = 93, nanoseconds = 0\<rparr>
   \<and> anjay_register_time_remaining fixture_now (registration_info (data_active registered_server))
       = \<lparr>seconds = 60, nanoseconds = 0\<rparr>
   \<and> get_server_update_interval_margin fixture_anjay registered_server
       = \<lparr>seconds = 30, nanoseconds = 0\<rparr>
   \<and> \<not> duration_ns (get_server_update_interval_margin fixture_anjay registered_server)
         \<le> 60 * NS_IN_S div 4
   \<and> next_update_delay fixture_now fixture_anjay registered_server
       = \<lparr>seconds = 30, nanoseconds = 0\<rparr>
   \<and> next_update_delay fixture_now fixture_anjay registered_server
       \<noteq> \<lparr>seconds = 45, nanoseconds = 0\<rparr>"
  by (simp add: registered_server_eq fixture_max_transmit_wait fixture_now_def
      get_server_update_interval_margin_def next_update_delay_def Let_def
      avs_time_duration_div_def c_div_def ANJAY_UPDATE_INTERVAL_MARGIN_FACTOR_def
      avs_time_duration_less_def anjay_register_time_remaining_def avs_time_real_diff_def
      avs_time_duration_diff_def ANJAY_MIN_UPDATE_INTERVAL_S_def
      avs_time_duration_from_scalar_s_def avs_time_duration_valid_def duration_ns_def
      duration_of_ns_def NS_IN_S_def)

text \<open>
  C1 (amended). For a server with registration lifetime \<open>L > 0\<close>, a valid expiry time
  and a valid maximum transmit wait of its primary transport, the margin is the smaller
  of half the lifetime and the maximum transmit wait, so it never exceeds \<open>L/2\<close>; the
  delay of the next Update is the remaining lifetime minus the margin, raised to one
  second when it is less, so it is at least one second.
\<close>

theorem next_update_delay_half_lifetime_margin:
  assumes "0 < lifetime_s (last_update_params (registration_info (data_active server)))"
    and "avs_time_duration_valid
           (max_transmit_wait anjay (primary_conn_type (data_active server)))"
    and "avs_time_real_valid (expire_time (registration_info (data_active server)))"
    and "avs_time_real_valid now"
  shows "duration_ns (get_server_update_interval_margin anjay server)
           = min (lifetime_s (last_update_params (registration_info (data_active server)))
                    * NS_IN_S div 2)
                 (duration_ns (max_transmit_wait anjay (primary_conn_type (data_active server))))
         \<and> duration_ns (get_server_update_interval_margin anjay server)
             \<le> lifetime_s (last_update_params (registration_info (data_active server)))
                  * NS_IN_S div 2
         \<and> next_update_delay now anjay server
             = duration_of_ns (max (1 * NS_IN_S)
                 (duration_ns (anjay_register_time_remaining now
                                 (registration_info (data_active server)))
                  - duration_ns (get_server_update_interval_margin anjay server)))
         \<and> avs_time_duration_valid (next_update_delay now anjay server)
         \<and> 1 \<le> seconds (next_update_delay now anjay server)"
proof -
  have m: "duration_ns (get_server_update_interval_margin anjay server)
             = min (lifetime_s (last_update_params (registration_info (data_active server)))
                      * NS_IN_S div 2)
                   (duration_ns
                      (max_transmit_wait anjay (primary_conn_type (data_active server))))"
    by (simp add: margin_ns [OF assms(1,2)] duration_ns_of_ns)
  have d: "next_update_delay now anjay server
             = duration_of_ns (max (1 * NS_IN_S)
                 (duration_ns (anjay_register_time_remaining now
                                 (registration_info (data_active server)))
                  - duration_ns (get_server_update_interval_margin anjay server)))"
    by (simp add: next_update_delay_ns [OF assms] m)
  have "1 \<le> max NS_IN_S x div NS_IN_S" for x
    using pos_imp_zdiv_pos_iff [of NS_IN_S "max NS_IN_S x"] by (simp add: NS_IN_S_def)
  then have s: "1 \<le> seconds (next_update_delay now anjay server)"
    by (simp add: d seconds_duration_of_ns)
  have v: "avs_time_duration_valid (next_update_delay now anjay server)"
    by (simp add: d duration_of_ns_valid)
  show ?thesis using m d s v by simp
qed

theorem next_update_delay_half_lifetime_margin_witness:
  "0 < lifetime_s (last_update_params (registration_info (data_active registered_server)))
   \<and> avs_time_duration_valid
       (max_transmit_wait fixture_anjay (primary_conn_type (data_active registered_server)))
   \<and> avs_time_real_valid (expire_time (registration_info (data_active registered_server)))
   \<and> avs_time_real_valid fixture_now
   \<and> duration_ns (get_server_update_interval_margin fixture_anjay registered_server)
       = min (60 * NS_IN_S div 2) (93 * NS_IN_S)
   \<and> 1 \<le> seconds (next_update_delay fixture_now fixture_anjay registered_server)"
proof -
  have h1: "0 < lifetime_s (last_update_params (registration_info (data_active registered_server)))"
    by (simp add: registered_server_eq)
  have h2: "avs_time_duration_valid
       (max_transmit_wait fixture_anjay (primary_conn_type (data_active registered_server)))"
    by (simp add: fixture_max_transmit_wait avs_time_duration_valid_def NS_IN_S_def)
  have h3: "avs_time_real_valid (expire_time (registration_info (data_active registered_server)))"
    by (simp add: registered_server_eq avs_time_real_valid_def avs_time_duration_valid_def
        NS_IN_S_def)
  have h4: "avs_time_real_valid fixture_now"
    by (simp add: fixture_now_def avs_time_real_valid_def avs_time_duration_valid_def
        avs_time_duration_from_scalar_s_def NS_IN_S_def)
  have l: "lifetime_s (last_update_params (registration_info (data_active registered_server))) = 60"
    by (simp add: registered_server_eq)
  have w: "duration_ns (max_transmit_wait fixture_anjay
             (primary_conn_type (data_active registered_server))) = 93 * NS_IN_S"
    by (simp add: fixture_max_transmit_wait duration_ns_def)
  note t = next_update_delay_half_lifetime_margin [OF h1 h2 h3 h4]
  have c1: "duration_ns (get_server_update_interval_margin fixture_anjay registered_server)
              = min (60 * NS_IN_S div 2) (93 * NS_IN_S)"
    using t unfolding l w by (rule conjunct1)
  have c2: "1 \<le> seconds (next_update_delay fixture_now fixture_anjay registered_server)"
    using t by blast
  show ?thesis by (intro conjI h1 h2 h3 h4 c1 c2)
qed

section \<open>The round trip of binding modes\<close>

text \<open>
  C2. For every binding-mode string \<open>s\<close> of the valid set, and an output buffer that can
  hold the longest of them with its terminator, rebuilding the binding mode from the
  connection modes of \<open>s\<close> for UDP and for SMS succeeds and gives \<open>s\<close> back.
\<close>

theorem binding_mode_round_trip:
  assumes "s \<in> set VALID_BINDINGS" and "4 \<le> capacity"
  shows "binding_mode_from_connection_modes capacity
           (anjay_get_connection_mode s ANJAY_CONNECTION_UDP)
           (anjay_get_connection_mode s ANJAY_CONNECTION_SMS) = (0, s)"
  using assms
  by (auto simp: VALID_BINDINGS_def binding_mode_from_connection_modes_def
      anjay_get_connection_mode_def c_str_at_def append_str_def anjay_binding_mode_valid_def)

theorem binding_mode_round_trip_witness:
  "''UQS'' \<in> set VALID_BINDINGS \<and> (4::nat) \<le> 8
   \<and> anjay_get_connection_mode ''UQS'' ANJAY_CONNECTION_UDP = ANJAY_CONNECTION_QUEUE
   \<and> anjay_get_connection_mode ''UQS'' ANJAY_CONNECTION_SMS = ANJAY_CONNECTION_ONLINE
   \<and> binding_mode_from_connection_modes 8
        (anjay_get_connection_mode ''UQS'' ANJAY_CONNECTION_UDP)
        (anjay_get_connection_mode ''UQS'' ANJAY_CONNECTION_SMS) = (0, ''UQS'')"
proof -
  have h1: "''UQS'' \<in> set VALID_BINDINGS" by (simp add: VALID_BINDINGS_def)
  have h2: "(4::nat) \<le> 8" by simp
  have m: "anjay_get_connection_mode ''UQS'' ANJAY_CONNECTION_UDP = ANJAY_CONNECTION_QUEUE"
    "anjay_get_connection_mode ''UQS'' ANJAY_CONNECTION_SMS = ANJAY_CONNECTION_ONLINE"
    by (simp_all add: anjay_get_connection_mode_def c_str_at_def)
  show ?thesis
    by (intro conjI h1 h2 m binding_mode_round_trip [OF h1 h2])
qed

lemma strchr_absent: "c \<notin> set s \<Longrightarrow> strchr s c = None"
  by (induction s) auto

lemma strchr_first: "c \<notin> set pre \<Longrightarrow> strchr (pre @ c # rest) c = Some (c # rest)"
  by (induction pre) auto

text \<open>
  The connection mode is decided by the first occurrence of the designator letter: the
  function finds it with \<^verbatim>\<open>strchr\<close> and reads the character after it.
\<close>

lemma connection_mode_first_occurrence:
  assumes "(conn_type, letter) \<in>
             {(ANJAY_CONNECTION_UDP, CHR ''U''), (ANJAY_CONNECTION_SMS, CHR ''S'')}"
  shows "(letter \<notin> set s \<longrightarrow>
            anjay_get_connection_mode s conn_type = ANJAY_CONNECTION_DISABLED)
         \<and> (\<forall>pre rest. s = pre @ letter # rest \<and> letter \<notin> set pre \<longrightarrow>
               anjay_get_connection_mode s conn_type =
                 (if c_str_at rest 0 = CHR ''Q''
                  then ANJAY_CONNECTION_QUEUE else ANJAY_CONNECTION_ONLINE))"
proof -
  have m: "anjay_get_connection_mode t conn_type =
             (case strchr t letter of
                None \<Rightarrow> ANJAY_CONNECTION_DISABLED
              | Some type_letter_ptr \<Rightarrow>
                  if c_str_at type_letter_ptr 1 = CHR ''Q''
                  then ANJAY_CONNECTION_QUEUE else ANJAY_CONNECTION_ONLINE)" for t
    using assms by (auto simp: anjay_get_connection_mode_def)
  have next_char: "c_str_at (letter # rest) (Suc 0) = c_str_at rest 0" for rest
    by (simp add: c_str_at_def)
  show ?thesis
    by (auto simp: m strchr_absent strchr_first next_char)
qed

lemma valid_binding_letter_once:
  "s \<in> set VALID_BINDINGS \<Longrightarrow> letter \<in> {CHR ''U'', CHR ''S''} \<Longrightarrow> count_list s letter \<le> 1"
  by (auto simp: VALID_BINDINGS_def)

lemma single_occurrence_index:
  assumes "letter \<notin> set pre" "letter \<notin> set rest" "i < length (pre @ letter # rest)"
    "(pre @ letter # rest) ! i = letter"
  shows "i = length pre"
proof (rule ccontr)
  assume n: "i \<noteq> length pre"
  show False
  proof (cases "i < length pre")
    case True
    then have "pre ! i = letter" using assms(4) by (simp add: nth_append)
    then show False using assms(1) True by (metis nth_mem)
  next
    case False
    then have g: "length pre < i" using n by simp
    have "(letter # rest) ! (i - length pre) = letter"
      using assms(4) False by (simp add: nth_append)
    then have "rest ! (i - length pre - 1) = letter"
      using g by (simp add: nth_Cons_pos)
    moreover have "i - length pre - 1 < length rest" using g assms(3) by simp
    ultimately show False using assms(2) by (metis nth_mem)
  qed
qed

text \<open>
  C3. For every binding-mode string, that is every string of the valid set and more
  generally every string in which the transport's designator letter (\<open>U\<close> for UDP, \<open>S\<close>
  for SMS) occurs at most once, and for each of the two transports: the connection mode
  is Queue exactly if the letter occurs in the string immediately followed by \<open>Q\<close>,
  Online exactly if the letter occurs not followed by \<open>Q\<close> (also when it ends the
  string), and Disabled exactly if the letter does not occur in the string.
\<close>

theorem connection_mode_of_binding:
  assumes "(conn_type, letter) \<in>
             {(ANJAY_CONNECTION_UDP, CHR ''U''), (ANJAY_CONNECTION_SMS, CHR ''S'')}"
    and "s \<in> set VALID_BINDINGS \<or> count_list s letter \<le> 1"
  shows "(anjay_get_connection_mode s conn_type = ANJAY_CONNECTION_QUEUE \<longleftrightarrow>
            (\<exists>i < length s. s ! i = letter \<and> c_str_at s (Suc i) = CHR ''Q''))
         \<and> (anjay_get_connection_mode s conn_type = ANJAY_CONNECTION_ONLINE \<longleftrightarrow>
            (\<exists>i < length s. s ! i = letter \<and> c_str_at s (Suc i) \<noteq> CHR ''Q''))
         \<and> (anjay_get_connection_mode s conn_type = ANJAY_CONNECTION_DISABLED \<longleftrightarrow>
            letter \<notin> set s)"
proof -
  have once: "count_list s letter \<le> 1"
    using assms valid_binding_letter_once [of s letter] by auto
  note first = connection_mode_first_occurrence [OF assms(1), of s]
  show ?thesis
  proof (cases "letter \<in> set s")
    case False
    then have "anjay_get_connection_mode s conn_type = ANJAY_CONNECTION_DISABLED"
      using first by blast
    moreover have "s ! i \<noteq> letter" if "i < length s" for i
      using False that by (metis nth_mem)
    ultimately show ?thesis using False by auto
  next
    case True
    then obtain pre rest where d: "s = pre @ letter # rest" "letter \<notin> set pre"
      by (meson split_list_first)
    have "count_list rest letter = 0"
      using once d by simp
    then have r: "letter \<notin> set rest"
      by (simp add: count_list_0_iff)
    have m: "anjay_get_connection_mode s conn_type =
               (if c_str_at rest 0 = CHR ''Q''
                then ANJAY_CONNECTION_QUEUE else ANJAY_CONNECTION_ONLINE)"
      using first d by blast
    have at: "c_str_at s (Suc (length pre)) = c_str_at rest 0"
      by (simp add: d c_str_at_def nth_append)
    have here: "length pre < length s" "s ! length pre = letter"
      by (simp_all add: d)
    have only: "i = length pre" if "i < length s" "s ! i = letter" for i
      using single_occurrence_index [OF d(2) r, of i] that d(1) by simp
    have q: "(\<exists>i < length s. s ! i = letter \<and> c_str_at s (Suc i) = CHR ''Q'')
               \<longleftrightarrow> c_str_at rest 0 = CHR ''Q''"
      using here only at by metis
    have o: "(\<exists>i < length s. s ! i = letter \<and> c_str_at s (Suc i) \<noteq> CHR ''Q'')
               \<longleftrightarrow> c_str_at rest 0 \<noteq> CHR ''Q''"
      using here only at by metis
    show ?thesis
      unfolding q o using m True by simp
  qed
qed

theorem connection_mode_of_binding_witness:
  "(ANJAY_CONNECTION_UDP, CHR ''U'') \<in>
     {(ANJAY_CONNECTION_UDP, CHR ''U''), (ANJAY_CONNECTION_SMS, CHR ''S'')}
   \<and> (ANJAY_CONNECTION_SMS, CHR ''S'') \<in>
     {(ANJAY_CONNECTION_UDP, CHR ''U''), (ANJAY_CONNECTION_SMS, CHR ''S'')}
   \<and> ''UQS'' \<in> set VALID_BINDINGS
   \<and> ''UQS'' ! 0 = CHR ''U'' \<and> c_str_at ''UQS'' (Suc 0) = CHR ''Q''
   \<and> anjay_get_connection_mode ''UQS'' ANJAY_CONNECTION_UDP = ANJAY_CONNECTION_QUEUE
   \<and> ''UQS'' ! 2 = CHR ''S'' \<and> c_str_at ''UQS'' (Suc 2) \<noteq> CHR ''Q''
   \<and> anjay_get_connection_mode ''UQS'' ANJAY_CONNECTION_SMS = ANJAY_CONNECTION_ONLINE
   \<and> ''UQ'' \<in> set VALID_BINDINGS \<and> CHR ''S'' \<notin> set ''UQ''
   \<and> anjay_get_connection_mode ''UQ'' ANJAY_CONNECTION_SMS = ANJAY_CONNECTION_DISABLED"
proof -
  have u: "(ANJAY_CONNECTION_UDP, CHR ''U'') \<in>
             {(ANJAY_CONNECTION_UDP, CHR ''U''), (ANJAY_CONNECTION_SMS, CHR ''S'')}"
    and s: "(ANJAY_CONNECTION_SMS, CHR ''S'') \<in>
             {(ANJAY_CONNECTION_UDP, CHR ''U''), (ANJAY_CONNECTION_SMS, CHR ''S'')}"
    by simp_all
  have v: "''UQS'' \<in> set VALID_BINDINGS" and w: "''UQ'' \<in> set VALID_BINDINGS"
    by (simp_all add: VALID_BINDINGS_def)
  have c: "''UQS'' ! 0 = CHR ''U''" "c_str_at ''UQS'' (Suc 0) = CHR ''Q''"
    "''UQS'' ! 2 = CHR ''S''" "c_str_at ''UQS'' (Suc 2) \<noteq> CHR ''Q''"
    "CHR ''S'' \<notin> set ''UQ''"
    by (simp_all add: c_str_at_def)
  have l: "(0::nat) < length ''UQS''" "(2::nat) < length ''UQS''" by simp_all
  have a: "anjay_get_connection_mode ''UQS'' ANJAY_CONNECTION_UDP = ANJAY_CONNECTION_QUEUE"
    using connection_mode_of_binding [OF u disjI1 [OF v]] c(1,2) l(1) by blast
  have b: "anjay_get_connection_mode ''UQS'' ANJAY_CONNECTION_SMS = ANJAY_CONNECTION_ONLINE"
    using connection_mode_of_binding [OF s disjI1 [OF v]] c(3,4) l(2) by blast
  have d: "anjay_get_connection_mode ''UQ'' ANJAY_CONNECTION_SMS = ANJAY_CONNECTION_DISABLED"
    using connection_mode_of_binding [OF s disjI1 [OF w]] c(5) by blast
  show ?thesis by (intro conjI u s v w c a b d)
qed

section \<open>Expiry of the registration\<close>

text \<open>
  C4. With a valid clock reading, the registration of a server is expired exactly when
  its expiry time is invalid or the time remaining to it is zero or negative. So it is
  expired when the expiry time is in the past, not expired when the expiry time is
  strictly in the future, and expired when the expiry time is the Invalid sentinel,
  which is never taken for an expiry infinitely far away.
\<close>

theorem registration_expired_iff:
  assumes "avs_time_real_valid now"
  shows "(anjay_server_registration_expired now server \<longleftrightarrow>
            (\<not> avs_time_real_valid (expire_time (registration_info (data_active server))) \<or>
             duration_ns (since_real_epoch (expire_time (registration_info (data_active server))))
               - duration_ns (since_real_epoch now) \<le> 0))
         \<and> (expire_time (registration_info (data_active server)) = AVS_TIME_REAL_INVALID \<longrightarrow>
              anjay_server_registration_expired now server)"
proof -
  have i: "\<not> avs_time_real_valid AVS_TIME_REAL_INVALID"
    by (simp add: avs_time_real_valid_def AVS_TIME_REAL_INVALID_def invalid_not_valid)
  have e: "anjay_server_registration_expired now server \<longleftrightarrow>
            (\<not> avs_time_real_valid (expire_time (registration_info (data_active server))) \<or>
             duration_ns (since_real_epoch (expire_time (registration_info (data_active server))))
               - duration_ns (since_real_epoch now) \<le> 0)"
  proof (cases "avs_time_real_valid (expire_time (registration_info (data_active server)))")
    case True
    then show ?thesis
      using assms
      by (simp add: anjay_server_registration_expired_def anjay_register_time_remaining_def
          anjay_server_registration_info_def avs_time_real_diff_def avs_time_duration_diff_def
          avs_time_real_valid_def avs_time_duration_less_ns zero_valid duration_of_ns_valid
          duration_ns_of_ns not_less)
  next
    case False
    then show ?thesis
      using assms
      by (simp add: anjay_server_registration_expired_def anjay_register_time_remaining_def
          anjay_server_registration_info_def avs_time_real_diff_def avs_time_duration_diff_def
          avs_time_real_valid_def avs_time_duration_less_def invalid_not_valid)
  qed
  show ?thesis using e i by auto
qed

lemma fixture_now_valid: "avs_time_real_valid fixture_now"
  by (simp add: fixture_now_def avs_time_real_valid_def avs_time_duration_valid_def
      avs_time_duration_from_scalar_s_def NS_IN_S_def)

lemma expire_time_set_expire_time:
  "expire_time (registration_info (data_active (set_expire_time t server))) = t"
  by (simp add: set_expire_time_def)

theorem registration_expired_iff_witness:
  "avs_time_real_valid fixture_now
   \<and> \<not> anjay_server_registration_expired fixture_now registered_server
   \<and> anjay_server_registration_expired fixture_now
       (set_expire_time \<lparr>since_real_epoch = \<lparr>seconds = 999, nanoseconds = 999999999\<rparr>\<rparr>
          registered_server)
   \<and> anjay_server_registration_expired fixture_now
       (set_expire_time fixture_now registered_server)
   \<and> anjay_server_registration_expired fixture_now
       (set_expire_time AVS_TIME_REAL_INVALID registered_server)"
proof -
  note t = registration_expired_iff [OF fixture_now_valid]
  have n: "duration_ns (since_real_epoch fixture_now) = 1000 * NS_IN_S"
    by (simp add: fixture_now_def avs_time_duration_from_scalar_s_def duration_ns_def)
  have dn: "duration_ns \<lparr>seconds = 1060, nanoseconds = 0\<rparr> = 1060 * NS_IN_S"
    "duration_ns \<lparr>seconds = 999, nanoseconds = 999999999\<rparr> = 999 * NS_IN_S + 999999999"
    by (simp_all add: duration_ns_def)
  have e: "expire_time (registration_info (data_active registered_server))
             = \<lparr>since_real_epoch = \<lparr>seconds = 1060, nanoseconds = 0\<rparr>\<rparr>"
    by (simp add: registered_server_eq)
  have a: "\<not> anjay_server_registration_expired fixture_now registered_server"
    using t [of registered_server] unfolding e
    by (simp add: n dn avs_time_real_valid_def avs_time_duration_valid_def NS_IN_S_def)
  have b: "anjay_server_registration_expired fixture_now
             (set_expire_time \<lparr>since_real_epoch = \<lparr>seconds = 999, nanoseconds = 999999999\<rparr>\<rparr>
                registered_server)"
    using t [of "set_expire_time \<lparr>since_real_epoch = \<lparr>seconds = 999, nanoseconds = 999999999\<rparr>\<rparr>
                   registered_server"]
    by (simp add: n dn expire_time_set_expire_time NS_IN_S_def)
  have c: "anjay_server_registration_expired fixture_now
             (set_expire_time fixture_now registered_server)"
    using t [of "set_expire_time fixture_now registered_server"]
    by (simp add: expire_time_set_expire_time)
  have d: "anjay_server_registration_expired fixture_now
             (set_expire_time AVS_TIME_REAL_INVALID registered_server)"
    using t [of "set_expire_time AVS_TIME_REAL_INVALID registered_server", THEN conjunct2]
    by (simp add: expire_time_set_expire_time)
  show ?thesis by (intro conjI fixture_now_valid a b c d)
qed

section \<open>The registration protocol driver: Update\<close>

lemma suspend_keeps_registration:
  "primary_conn_type (data_active (anjay_connection_suspend server conn_type))
     = primary_conn_type (data_active server)"
  "registration_info (data_active (anjay_connection_suspend server conn_type))
     = registration_info (data_active server)"
  by (simp_all add: anjay_connection_suspend_def Let_def)

lemma connection_suspend_offline: "\<not> anjay_connection_is_online (connection_suspend connection)"
  by (simp add: anjay_connection_is_online_def connection_suspend_def split: option.splits)

lemma connection_suspend_socket:
  "conn_socket (connection_suspend connection)
     = map_option (\<lambda>socket. socket\<lparr>socket_state := AVS_NET_SOCKET_STATE_CLOSED\<rparr>)
         (conn_socket connection)"
  "nontransient_state (connection_suspend connection) = nontransient_state connection"
  "mode (connection_suspend connection) = mode connection"
  by (simp_all add: connection_suspend_def split: option.splits)

lemma suspend_no_online_socket:
  "anjay_connection_get_online_socket (anjay_connection_suspend server conn_type) conn_type = None"
  by (cases conn_type)
    (simp_all add: anjay_connection_get_online_socket_def anjay_get_server_connection_def
      anjay_connection_suspend_def Let_def connection_suspend_offline)

lemma suspend_primary_not_valid:
  "\<not> anjay_server_primary_connection_valid
       (anjay_connection_suspend server (primary_conn_type (data_active server)))"
  by (simp add: anjay_server_primary_connection_valid_def suspend_keeps_registration
      suspend_no_online_socket)

lemma suspend_one_transport:
  "udp_connection (data_active (anjay_connection_suspend server ANJAY_CONNECTION_UDP))
     = connection_suspend (udp_connection (data_active server))"
  "sms_connection (data_active (anjay_connection_suspend server ANJAY_CONNECTION_UDP))
     = sms_connection (data_active server)"
  "sms_connection (data_active (anjay_connection_suspend server ANJAY_CONNECTION_SMS))
     = connection_suspend (sms_connection (data_active server))"
  "udp_connection (data_active (anjay_connection_suspend server ANJAY_CONNECTION_SMS))
     = udp_connection (data_active server)"
  by (simp_all add: anjay_connection_suspend_def Let_def)

text \<open>
  C5. For an Update attempt that reaches the exchange with the server: if the server
  rejects the Update, asking for a full registration, the outcome is NeedsRegistration
  and the expiry time of the registration is the Invalid sentinel at once; if the
  exchange fails with a network error, the outcome is Failed and the primary connection
  is suspended: its socket is closed and kept, the primary connection is no longer
  valid, and the connection of the other transport is left as it was (the suspension
  of one connection, not of all the server's connections as on the reconnect path). In
  both cases the exchange is the only call made.
\<close>

theorem update_rejected_or_network_error:
  fixes ext :: collaborators and st :: driver_state
  defines "exchange \<equiv> update_registration ext (st_server st)"
    and "outcome \<equiv> registration_update_with_ctx ext st"
  shows "(fst exchange = ANJAY_REGISTRATION_UPDATE_REJECTED \<longrightarrow>
            fst outcome = ANJAY_UPDATE_NEEDS_REGISTRATION
            \<and> expire_time (registration_info (data_active (st_server (snd outcome))))
                = AVS_TIME_REAL_INVALID
            \<and> st_trace (snd outcome) = st_trace st @ [Update_registration])
         \<and> (fst exchange = AVS_COAP_CTX_ERR_NETWORK \<longrightarrow>
            fst outcome = ANJAY_UPDATE_FAILED
            \<and> st_server (snd outcome)
                = anjay_connection_suspend (snd exchange)
                    (primary_conn_type (data_active (snd exchange)))
            \<and> \<not> anjay_server_primary_connection_valid (st_server (snd outcome))
            \<and> anjay_connection_get_online_socket (st_server (snd outcome))
                 (primary_conn_type (data_active (st_server (snd outcome)))) = None
            \<and> (primary_conn_type (data_active (snd exchange)) = ANJAY_CONNECTION_UDP \<longrightarrow>
                 udp_connection (data_active (st_server (snd outcome)))
                   = connection_suspend (udp_connection (data_active (snd exchange)))
                 \<and> sms_connection (data_active (st_server (snd outcome)))
                   = sms_connection (data_active (snd exchange)))
            \<and> (primary_conn_type (data_active (snd exchange)) = ANJAY_CONNECTION_SMS \<longrightarrow>
                 sms_connection (data_active (st_server (snd outcome)))
                   = connection_suspend (sms_connection (data_active (snd exchange)))
                 \<and> udp_connection (data_active (st_server (snd outcome)))
                   = udp_connection (data_active (snd exchange)))
            \<and> st_trace (snd outcome) = st_trace st @ [Update_registration])"
proof (cases exchange)
  case (Pair retval server)
  then have e: "update_registration ext (st_server st) = (retval, server)"
    by (simp add: exchange_def)
  show ?thesis
  proof (cases retval)
    case ANJAY_REGISTRATION_UPDATE_REJECTED
    then show ?thesis
      using e
      by (simp add: outcome_def exchange_def registration_update_with_ctx_def
          set_expire_time_def)
  next
    case AVS_COAP_CTX_ERR_NETWORK
    then show ?thesis
      using e
      by (simp add: outcome_def exchange_def registration_update_with_ctx_def
          suspend_primary_not_valid suspend_no_online_socket suspend_keeps_registration
          suspend_one_transport)
  qed (simp_all add: Pair)
qed


lemma registered_server_udp:
  "primary_conn_type (data_active registered_server) = ANJAY_CONNECTION_UDP"
  "conn_socket (udp_connection (data_active registered_server))
     = Some \<lparr>socket_address = 1252, socket_state = AVS_NET_SOCKET_STATE_CONNECTED\<rparr>"
  "conn_socket (sms_connection (data_active registered_server)) = None"
  by (simp_all add: registered_server_eq)

theorem update_rejected_or_network_error_witness:
  "fst (update_registration
          (scripted_collaborators ANJAY_REGISTRATION_UPDATE_REJECTED 0 Register_ok 0 0)
          (st_server registered_state)) = ANJAY_REGISTRATION_UPDATE_REJECTED
   \<and> fst (registration_update_with_ctx
            (scripted_collaborators ANJAY_REGISTRATION_UPDATE_REJECTED 0 Register_ok 0 0)
            registered_state) = ANJAY_UPDATE_NEEDS_REGISTRATION
   \<and> expire_time (registration_info (data_active (st_server (snd
        (registration_update_with_ctx
           (scripted_collaborators ANJAY_REGISTRATION_UPDATE_REJECTED 0 Register_ok 0 0)
           registered_state))))) = AVS_TIME_REAL_INVALID
   \<and> fst (update_registration
            (scripted_collaborators AVS_COAP_CTX_ERR_NETWORK 0 Register_ok 0 0)
            (st_server registered_state)) = AVS_COAP_CTX_ERR_NETWORK
   \<and> fst (registration_update_with_ctx
            (scripted_collaborators AVS_COAP_CTX_ERR_NETWORK 0 Register_ok 0 0)
            registered_state) = ANJAY_UPDATE_FAILED
   \<and> conn_socket (udp_connection (data_active (st_server (snd
        (registration_update_with_ctx
           (scripted_collaborators AVS_COAP_CTX_ERR_NETWORK 0 Register_ok 0 0)
           registered_state)))))
       = Some \<lparr>socket_address = 1252, socket_state = AVS_NET_SOCKET_STATE_CLOSED\<rparr>"
proof -
  let ?rej = "scripted_collaborators ANJAY_REGISTRATION_UPDATE_REJECTED 0 Register_ok 0 0"
  let ?net = "scripted_collaborators AVS_COAP_CTX_ERR_NETWORK 0 Register_ok 0 0"
  have r: "update_registration ?rej (st_server registered_state)
             = (ANJAY_REGISTRATION_UPDATE_REJECTED, registered_server)"
    and n: "update_registration ?net (st_server registered_state)
             = (AVS_COAP_CTX_ERR_NETWORK, registered_server)"
    by (simp_all add: scripted_collaborators_def registered_state_def)
  note t1 = update_rejected_or_network_error [of ?rej registered_state]
  note t2 = update_rejected_or_network_error [of ?net registered_state]
  have a: "fst (registration_update_with_ctx ?rej registered_state)
             = ANJAY_UPDATE_NEEDS_REGISTRATION"
    and b: "expire_time (registration_info (data_active (st_server (snd
              (registration_update_with_ctx ?rej registered_state))))) = AVS_TIME_REAL_INVALID"
    using t1 by (simp_all add: r)
  have c: "fst (registration_update_with_ctx ?net registered_state) = ANJAY_UPDATE_FAILED"
    using t2 by (simp add: n)
  have "udp_connection (data_active (st_server (snd
          (registration_update_with_ctx ?net registered_state))))
        = connection_suspend (udp_connection (data_active registered_server))"
    using t2 by (simp add: n registered_server_udp suspend_one_transport)
  then have d: "conn_socket (udp_connection (data_active (st_server (snd
                  (registration_update_with_ctx ?net registered_state)))))
                = Some \<lparr>socket_address = 1252, socket_state = AVS_NET_SOCKET_STATE_CLOSED\<rparr>"
    by (simp add: connection_suspend_socket registered_server_udp)
  show ?thesis
    using a b c d by (simp add: r n)
qed

section \<open>The registration protocol driver: registration\<close>

lemma set_expire_time_primary_valid:
  "anjay_server_primary_connection_valid (set_expire_time t server)
     = anjay_server_primary_connection_valid server"
  by (simp add: anjay_server_primary_connection_valid_def set_expire_time_def
      anjay_connection_get_online_socket_def anjay_get_server_connection_def
      split: anjay_connection_type_t.splits)

text \<open>
  C6. For a server with no valid primary connection, the driver classifies the attempt
  as NeedsRegistration and sets the expiry time to the Invalid sentinel, and its next
  call is the set-up of the primary connection; if that fails, the outcome is Failed
  and the set-up is the only call made, so no Register exchange is performed.
\<close>

theorem no_valid_connection_needs_registration:
  fixes ext :: collaborators and st :: driver_state and now :: avs_time_real_t
  defines "invalidated \<equiv> set_expire_time AVS_TIME_REAL_INVALID (st_server st)"
    and "outcome \<equiv> ensure_valid_registration_with_ctx ext now st"
  assumes "\<not> anjay_server_primary_connection_valid (st_server st)"
  shows "ensure_valid_registration_update_result ext now st
           = (ANJAY_UPDATE_NEEDS_REGISTRATION, st\<lparr>st_server := invalidated\<rparr>)
         \<and> expire_time (registration_info (data_active invalidated)) = AVS_TIME_REAL_INVALID
         \<and> take (Suc (length (st_trace st))) (st_trace (snd outcome))
             = st_trace st @ [Setup_primary_connection]
         \<and> (fst (server_setup_primary_connection ext invalidated) \<noteq> 0 \<longrightarrow>
              fst outcome = ANJAY_REGISTRATION_FAILED
              \<and> st_trace (snd outcome) = st_trace st @ [Setup_primary_connection]
              \<and> st_server (snd outcome) = snd (server_setup_primary_connection ext invalidated))"
proof -
  have u: "ensure_valid_registration_update_result ext now st
             = (ANJAY_UPDATE_NEEDS_REGISTRATION, st\<lparr>st_server := invalidated\<rparr>)"
    using assms(3) by (simp add: ensure_valid_registration_update_result_def invalidated_def)
  have i: "\<not> anjay_server_primary_connection_valid invalidated"
    using assms(3) by (simp add: invalidated_def set_expire_time_primary_valid)
  have e: "expire_time (registration_info (data_active invalidated)) = AVS_TIME_REAL_INVALID"
    by (simp add: invalidated_def set_expire_time_def)
  obtain r server where s: "server_setup_primary_connection ext invalidated = (r, server)"
    by (cases "server_setup_primary_connection ext invalidated")
  obtain retval server' where g: "register_exchange ext server = (retval, server')"
    by (cases "register_exchange ext server")
  have t: "take (Suc (length (st_trace st))) (st_trace (snd outcome))
             = st_trace st @ [Setup_primary_connection]"
    unfolding outcome_def ensure_valid_registration_with_ctx_def u
    using i s g by (cases retval) (simp_all add: Let_def)
  have f: "fst outcome = ANJAY_REGISTRATION_FAILED
           \<and> st_trace (snd outcome) = st_trace st @ [Setup_primary_connection]
           \<and> st_server (snd outcome) = snd (server_setup_primary_connection ext invalidated)"
    if "fst (server_setup_primary_connection ext invalidated) \<noteq> 0"
    unfolding outcome_def ensure_valid_registration_with_ctx_def u
    using i s that by (simp add: Let_def)
  show ?thesis using u e t f by blast
qed


theorem no_valid_connection_needs_registration_witness:
  "\<not> anjay_server_primary_connection_valid (st_server suspended_state)
   \<and> fst (server_setup_primary_connection
            (scripted_collaborators Update_registration_ok (- 1) Register_ok 0 0)
            (set_expire_time AVS_TIME_REAL_INVALID (st_server suspended_state))) \<noteq> 0
   \<and> fst (ensure_valid_registration_update_result
            (scripted_collaborators Update_registration_ok (- 1) Register_ok 0 0)
            fixture_now suspended_state) = ANJAY_UPDATE_NEEDS_REGISTRATION
   \<and> fst (ensure_valid_registration_with_ctx
            (scripted_collaborators Update_registration_ok (- 1) Register_ok 0 0)
            fixture_now suspended_state) = ANJAY_REGISTRATION_FAILED
   \<and> st_trace (snd (ensure_valid_registration_with_ctx
            (scripted_collaborators Update_registration_ok (- 1) Register_ok 0 0)
            fixture_now suspended_state)) = [Setup_primary_connection]"
proof -
  let ?ext = "scripted_collaborators Update_registration_ok (- 1) Register_ok 0 0"
  have h: "\<not> anjay_server_primary_connection_valid (st_server suspended_state)"
    using suspend_primary_not_valid [of registered_server]
    by (simp add: suspended_state_def registered_server_udp)
  have f: "fst (server_setup_primary_connection ?ext
                  (set_expire_time AVS_TIME_REAL_INVALID (st_server suspended_state))) \<noteq> 0"
    by (simp add: scripted_collaborators_def)
  note t = no_valid_connection_needs_registration [OF h, of ?ext fixture_now]
  have a: "fst (ensure_valid_registration_update_result ?ext fixture_now suspended_state)
             = ANJAY_UPDATE_NEEDS_REGISTRATION"
    using t by simp
  have b: "fst (ensure_valid_registration_with_ctx ?ext fixture_now suspended_state)
             = ANJAY_REGISTRATION_FAILED"
    using t f by blast
  have "st_trace (snd (ensure_valid_registration_with_ctx ?ext fixture_now suspended_state))
          = st_trace suspended_state @ [Setup_primary_connection]"
    using t f by blast
  then have c: "st_trace (snd (ensure_valid_registration_with_ctx ?ext fixture_now
                  suspended_state)) = [Setup_primary_connection]"
    by (simp add: suspended_state_def)
  show ?thesis by (intro conjI h f a b c)
qed

section \<open>De-registration\<close>



section \<open>The rules of validation\<close>

lemma binding_mode_valid_from_set: "binding_mode_valid_from b vs \<longleftrightarrow> b \<in> set vs"
  by (induction vs) auto

lemma anjay_binding_mode_valid_set: "anjay_binding_mode_valid b \<longleftrightarrow> b \<in> set VALID_BINDINGS"
  by (simp add: anjay_binding_mode_valid_def binding_mode_valid_from_set)

lemma validate_instance_acceptable: "validate_instance it = 0 \<longleftrightarrow> instance_acceptable it"
  by (auto simp: validate_instance_def instance_acceptable_def anjay_binding_mode_valid_set)

lemma collect_seen_ssids_ok:
  "fst (collect_seen_ssids alloc_ok its seen) = Validate_ok \<Longrightarrow>
     (\<forall>it \<in> set its. instance_acceptable it)
     \<and> snd (collect_seen_ssids alloc_ok its seen) = rev (map (\<lambda>it. data_ssid (data it)) its) @ seen"
proof (induction its arbitrary: seen)
  case Nil
  then show ?case by simp
next
  case (Cons it its)
  then show ?case
    by (auto simp: validate_instance_acceptable split: if_splits)
qed

lemma collect_seen_ssids_all:
  assumes "\<forall>n. length seen \<le> n \<and> n < length seen + length its \<longrightarrow> alloc_ok n"
  shows "fst (collect_seen_ssids alloc_ok its seen) =
           (if \<forall>it \<in> set its. instance_acceptable it
            then Validate_ok else ANJAY_ERR_BAD_REQUEST)"
  using assms
proof (induction its arbitrary: seen)
  case Nil
  then show ?case by simp
next
  case (Cons it its)
  show ?case
  proof (cases "validate_instance it = 0")
    case False
    then show ?thesis
      using validate_instance_acceptable [of it] by simp
  next
    case True
    have a: "alloc_ok (length seen)"
      using Cons.prems by simp
    have "\<forall>n. length (data_ssid (data it) # seen) \<le> n
             \<and> n < length (data_ssid (data it) # seen) + length its \<longrightarrow> alloc_ok n"
      using Cons.prems by simp
    from Cons.IH [OF this] True a show ?thesis
      using validate_instance_acceptable [of it] by simp
  qed
qed

lemma list_insert_sorted_insort: "list_insert_sorted ssid_cmp x ys = insort x ys"
  by (induction ys) (simp_all add: ssid_cmp_def)

lemma AVS_LIST_SORT_sort: "AVS_LIST_SORT ssid_cmp xs = sort xs"
proof -
  have "list_insert_sorted ssid_cmp = insort"
    by (intro ext) (rule list_insert_sorted_insort)
  then show ?thesis
    by (simp add: AVS_LIST_SORT_def sort_key_def)
qed

lemma duplicate_after_distinct:
  "sorted (prev # rest) \<Longrightarrow>
     duplicate_after prev rest = (if distinct (prev # rest) then Validate_ok else ANJAY_ERR_BAD_REQUEST)"
proof (induction rest arbitrary: prev)
  case Nil
  then show ?case by simp
next
  case (Cons n rest)
  then have s: "sorted (n # rest)" and le: "prev \<le> n" and all: "\<forall>x \<in> set rest. n \<le> x"
    by auto
  have "prev \<notin> set rest" if "prev \<noteq> n"
    using that le all by auto
  then show ?case
    using Cons.IH [OF s] by auto
qed

lemma sorted_list_duplicates:
  "(case sort xs of [] \<Rightarrow> Validate_ok | prev # rest \<Rightarrow> duplicate_after prev rest)
     = (if distinct xs then Validate_ok else ANJAY_ERR_BAD_REQUEST)"
proof (cases "sort xs")
  case Nil
  then have "xs = []" by (metis length_sort length_0_conv)
  then show ?thesis by simp
next
  case (Cons p rest)
  have "sorted (sort xs)" and d: "distinct (sort xs) = distinct xs"
    by simp_all
  then have "sorted (p # rest)" using Cons by simp
  from duplicate_after_distinct [OF this] show ?thesis
    using d Cons by (simp del: duplicate_after.simps)
qed

text \<open>
  C8. Validation of the list of Server object instances fails whenever some instance
  breaks a rule (a missing SSID, Binding, Lifetime or Notification-Storing resource, a
  Lifetime that is not positive, a Default-Max-Period of zero, a Binding outside the
  valid set) or two instances have the same SSID. When the allocations of the
  duplicate check succeed, the result is the validation error
  \<^verbatim>\<open>ANJAY_ERR_BAD_REQUEST\<close> in each of these cases, and a list that breaks no rule
  passes. Validation only computes this result from the list; it changes no server
  entry.
\<close>

theorem serv_object_validate_rules:
  fixes instances :: "server_instance_t list"
  defines "acceptable \<equiv> (\<forall>it \<in> set instances. instance_acceptable it)
                          \<and> distinct (map (\<lambda>it. data_ssid (data it)) instances)"
  shows "(\<not> acceptable \<longrightarrow> anjay_serv_object_validate alloc_ok instances \<noteq> Validate_ok)
         \<and> ((\<forall>n < length instances. alloc_ok n) \<longrightarrow>
              anjay_serv_object_validate alloc_ok instances
                = (if acceptable then Validate_ok else ANJAY_ERR_BAD_REQUEST))"
proof (cases "instances = []")
  case True
  then show ?thesis
    by (simp add: anjay_serv_object_validate_def acceptable_def)
next
  case False
  obtain result seen where c: "collect_seen_ssids alloc_ok instances [] = (result, seen)"
    by (cases "collect_seen_ssids alloc_ok instances []")
  have v: "anjay_serv_object_validate alloc_ok instances =
             (if result = Validate_ok
              then (if distinct seen then Validate_ok else ANJAY_ERR_BAD_REQUEST)
              else result)"
    using False c
    by (simp add: anjay_serv_object_validate_def AVS_LIST_SORT_sort sorted_list_duplicates)
  have ok: "(\<forall>it \<in> set instances. instance_acceptable it)
            \<and> seen = rev (map (\<lambda>it. data_ssid (data it)) instances)"
    if "result = Validate_ok"
    using collect_seen_ssids_ok [of alloc_ok instances "[]"] c that by simp
  have collected: "anjay_serv_object_validate alloc_ok instances
                     = (if acceptable then Validate_ok else ANJAY_ERR_BAD_REQUEST)"
    if r: "result = Validate_ok"
  proof -
    have "distinct seen = distinct (map (\<lambda>it. data_ssid (data it)) instances)"
      using ok [OF r] by simp
    then show ?thesis
      using ok [OF r] r by (simp add: v acceptable_def)
  qed
  have first: "anjay_serv_object_validate alloc_ok instances \<noteq> Validate_ok"
    if "\<not> acceptable"
  proof (cases "result = Validate_ok")
    case True
    then show ?thesis using collected that by simp
  next
    case False
    then show ?thesis by (simp add: v)
  qed
  have second: "anjay_serv_object_validate alloc_ok instances
                  = (if acceptable then Validate_ok else ANJAY_ERR_BAD_REQUEST)"
    if a: "\<forall>n < length instances. alloc_ok n"
  proof (cases "result = Validate_ok")
    case True
    then show ?thesis by (rule collected)
  next
    case False
    have "\<forall>n. length ([]::nat list) \<le> n \<and> n < length ([]::nat list) + length instances
            \<longrightarrow> alloc_ok n"
      using a by simp
    from collect_seen_ssids_all [OF this] c
    have r: "result = (if \<forall>it \<in> set instances. instance_acceptable it
                       then Validate_ok else ANJAY_ERR_BAD_REQUEST)"
      by simp
    with False have "result = ANJAY_ERR_BAD_REQUEST"
      and "\<not> (\<forall>it \<in> set instances. instance_acceptable it)"
      by (simp_all split: if_splits)
    then show ?thesis
      by (simp add: v acceptable_def)
  qed
  show ?thesis using first second by blast
qed


lemma instances_acceptable:
  "instance_acceptable instance_one" "instance_acceptable instance_two"
  "data_ssid (data instance_one) = 1" "data_ssid (data instance_two) = 2"
  by (simp_all add: instance_acceptable_def instance_one_def instance_two_def VALID_BINDINGS_def)

theorem serv_object_validate_rules_witness:
  "instance_acceptable instance_one \<and> instance_acceptable instance_two
   \<and> distinct (map (\<lambda>it. data_ssid (data it)) [instance_one, instance_two])
   \<and> anjay_serv_object_validate (\<lambda>n. True) [instance_one, instance_two] = Validate_ok
   \<and> \<not> distinct (map (\<lambda>it. data_ssid (data it)) [instance_one, instance_two, instance_one])
   \<and> anjay_serv_object_validate (\<lambda>n. True) [instance_one, instance_two, instance_one]
       = ANJAY_ERR_BAD_REQUEST
   \<and> \<not> instance_acceptable (instance_two\<lparr>has_lifetime := False\<rparr>)
   \<and> anjay_serv_object_validate (\<lambda>n. False) [instance_two\<lparr>has_lifetime := False\<rparr>]
       \<noteq> Validate_ok"
proof -
  have a: "\<forall>it \<in> set [instance_one, instance_two]. instance_acceptable it"
    and d: "distinct (map (\<lambda>it. data_ssid (data it)) [instance_one, instance_two])"
    and nd: "\<not> distinct (map (\<lambda>it. data_ssid (data it))
                            [instance_one, instance_two, instance_one])"
    by (simp_all add: instances_acceptable)
  have na: "\<not> instance_acceptable (instance_two\<lparr>has_lifetime := False\<rparr>)"
    by (simp add: instance_acceptable_def)
  have r1: "anjay_serv_object_validate (\<lambda>n. True) [instance_one, instance_two] = Validate_ok"
    using serv_object_validate_rules [of "[instance_one, instance_two]" "\<lambda>n. True"] a d
    by simp
  have r2: "anjay_serv_object_validate (\<lambda>n. True) [instance_one, instance_two, instance_one]
              = ANJAY_ERR_BAD_REQUEST"
    using serv_object_validate_rules
            [of "[instance_one, instance_two, instance_one]" "\<lambda>n. True"] nd
    by simp
  have r3: "anjay_serv_object_validate (\<lambda>n. False) [instance_two\<lparr>has_lifetime := False\<rparr>]
              \<noteq> Validate_ok"
    using serv_object_validate_rules
            [of "[instance_two\<lparr>has_lifetime := False\<rparr>]" "\<lambda>n. False"] na
    by simp
  show ?thesis by (intro conjI instances_acceptable(1,2) d r1 nd r2 na r3)
qed

section \<open>Finding a server by its UDP socket\<close>

lemma find_by_udp_socket_clb_apply:
  "find_by_udp_socket_clb i server (socket, out) =
     (if anjay_connection_get_online_socket server ANJAY_CONNECTION_UDP = socket
      then (ANJAY_FOREACH_BREAK, (socket, Some i))
      else (ANJAY_FOREACH_CONTINUE, (socket, out)))"
  by (simp add: find_by_udp_socket_clb_def)

lemma find_by_udp_socket_from:
  assumes "servers_foreach_active_from ss k find_by_udp_socket_clb (socket, None) = (r, args)"
  shows "r = 0 \<and> fst args = socket
         \<and> (case snd args of
               None \<Rightarrow>
                 \<forall>j < length ss. \<not> (anjay_server_active (ss ! j) \<and>
                   anjay_connection_get_online_socket (ss ! j) ANJAY_CONNECTION_UDP = socket)
             | Some i \<Rightarrow>
                 k \<le> i \<and> i - k < length ss
                 \<and> anjay_server_active (ss ! (i - k))
                 \<and> anjay_connection_get_online_socket (ss ! (i - k)) ANJAY_CONNECTION_UDP = socket
                 \<and> (\<forall>j < i - k. \<not> (anjay_server_active (ss ! j) \<and>
                       anjay_connection_get_online_socket (ss ! j) ANJAY_CONNECTION_UDP = socket)))"
  using assms
proof (induction ss arbitrary: k)
  case Nil
  then show ?case by auto
next
  case (Cons s ss)
  show ?case
  proof (cases "anjay_server_active s \<and>
                anjay_connection_get_online_socket s ANJAY_CONNECTION_UDP = socket")
    case True
    then have "r = 0" "args = (socket, Some k)"
      using Cons.prems by (auto simp: find_by_udp_socket_clb_apply split: if_splits)
    then show ?thesis using True by simp
  next
    case False
    then have "servers_foreach_active_from ss (Suc k) find_by_udp_socket_clb (socket, None)
                 = (r, args)"
      using Cons.prems by (auto simp: find_by_udp_socket_clb_apply split: if_splits)
    from Cons.IH [OF this] have ih: "r = 0" "fst args = socket"
      "case snd args of
         None \<Rightarrow>
           \<forall>j < length ss. \<not> (anjay_server_active (ss ! j) \<and>
             anjay_connection_get_online_socket (ss ! j) ANJAY_CONNECTION_UDP = socket)
       | Some i \<Rightarrow>
           Suc k \<le> i \<and> i - Suc k < length ss
           \<and> anjay_server_active (ss ! (i - Suc k))
           \<and> anjay_connection_get_online_socket (ss ! (i - Suc k)) ANJAY_CONNECTION_UDP = socket
           \<and> (\<forall>j < i - Suc k. \<not> (anjay_server_active (ss ! j) \<and>
                 anjay_connection_get_online_socket (ss ! j) ANJAY_CONNECTION_UDP = socket))"
      by simp_all
    show ?thesis
    proof (cases "snd args")
      case None
      then show ?thesis
        using ih False by (auto simp: nth_Cons split: nat.splits)
    next
      case (Some i)
      then obtain d where d: "i - k = Suc d" "i - Suc k = d"
        using ih(3) by (cases "i - k") auto
      show ?thesis
        using ih False Some d by (auto simp: nth_Cons split: nat.splits)
    qed
  qed
qed

text \<open>
  C10. For every state of the registry and every socket that is not null: if the search
  by UDP socket returns a server, that server is an active entry of the registry whose
  UDP connection is online and whose socket is the given one, and it is the first such
  entry; a server whose UDP socket is suspended or offline is therefore never returned.
  The search returns the not-found value, and no error, exactly when no active server
  has the given socket online.
\<close>

theorem find_by_udp_socket_online_only:
  fixes anjay :: anjay_t and socket :: nat
  defines "found \<equiv> anjay_servers_find_by_udp_socket anjay (Some socket)"
    and "matches \<equiv> (\<lambda>server. anjay_server_active server \<and>
           anjay_connection_get_online_socket server ANJAY_CONNECTION_UDP = Some socket)"
  shows "(\<forall>i. found = Some i \<longrightarrow>
            i < length (servers anjay) \<and> matches (servers anjay ! i)
            \<and> anjay_connection_is_online (udp_connection (data_active (servers anjay ! i)))
            \<and> map_option socket_address
                 (conn_socket (udp_connection (data_active (servers anjay ! i)))) = Some socket
            \<and> (\<forall>j < i. \<not> matches (servers anjay ! j)))
         \<and> (found = None \<longleftrightarrow> (\<forall>j < length (servers anjay). \<not> matches (servers anjay ! j)))"
proof -
  obtain r args where
    f: "servers_foreach_active_from (servers anjay) 0 find_by_udp_socket_clb (Some socket, None)
          = (r, args)"
    by (cases "servers_foreach_active_from (servers anjay) 0 find_by_udp_socket_clb
                 (Some socket, None)")
  note l = find_by_udp_socket_from [OF f]
  have found: "found = snd args"
    using f l by (simp add: found_def anjay_servers_find_by_udp_socket_def
        anjay_servers_foreach_active_def)
  have online: "anjay_connection_is_online (udp_connection (data_active server))
                \<and> map_option socket_address
                     (conn_socket (udp_connection (data_active server))) = Some socket"
    if "matches server" for server
    using that
    by (auto simp: matches_def anjay_connection_get_online_socket_def
        anjay_get_server_connection_def split: if_splits)
  show ?thesis
  proof (cases "snd args")
    case None
    then show ?thesis using l found by (simp add: matches_def)
  next
    case (Some i)
    then have m: "i < length (servers anjay)" "matches (servers anjay ! i)"
      "\<forall>j < i. \<not> matches (servers anjay ! j)"
      using l by (simp_all add: matches_def)
    then show ?thesis
      using found Some online [OF m(2)] by auto
  qed
qed

lemma two_server_anjay_servers:
  "servers two_server_anjay =
     [anjay_connection_suspend (servers (anjay_test_dm_install_socket fixture_anjay 2 77) ! 0)
        ANJAY_CONNECTION_UDP,
      servers fixture_anjay ! 0]"
  by (simp add: two_server_anjay_def Let_def anjay_test_dm_install_socket_def
      fixture_anjay_def fresh_anjay_def)

lemma two_server_anjay_facts:
  "length (servers two_server_anjay) = 2"
  "anjay_server_active (servers two_server_anjay ! 0)"
  "map_option socket_address
     (conn_socket (udp_connection (data_active (servers two_server_anjay ! 0)))) = Some 77"
  "anjay_connection_get_online_socket (servers two_server_anjay ! 0) ANJAY_CONNECTION_UDP = None"
  "anjay_server_active (servers two_server_anjay ! Suc 0)"
  "anjay_connection_get_online_socket (servers two_server_anjay ! Suc 0) ANJAY_CONNECTION_UDP
     = Some 1252"
  by (simp_all add: two_server_anjay_servers anjay_test_dm_install_socket_def
      fixture_anjay_def fresh_anjay_def zeroed_connection_def anjay_connection_suspend_def
      connection_suspend_def anjay_server_active_def anjay_connection_get_online_socket_def
      anjay_get_server_connection_def anjay_connection_is_online_def Let_def)

theorem find_by_udp_socket_online_only_witness:
  "anjay_server_active (servers two_server_anjay ! 0)
   \<and> map_option socket_address
        (conn_socket (udp_connection (data_active (servers two_server_anjay ! 0)))) = Some 77
   \<and> anjay_servers_find_by_udp_socket two_server_anjay (Some 77) = None
   \<and> anjay_servers_find_by_udp_socket two_server_anjay (Some 1252) = Some 1
   \<and> anjay_connection_is_online (udp_connection (data_active (servers two_server_anjay ! 1)))"
proof -
  note t77 = find_by_udp_socket_online_only [of two_server_anjay 77]
  note t1252 = find_by_udp_socket_online_only [of two_server_anjay 1252]
  have "\<forall>j < length (servers two_server_anjay).
          \<not> (anjay_server_active (servers two_server_anjay ! j) \<and>
             anjay_connection_get_online_socket (servers two_server_anjay ! j)
               ANJAY_CONNECTION_UDP = Some 77)"
    by (simp add: two_server_anjay_facts less_Suc_eq numeral_2_eq_2)
  then have a: "anjay_servers_find_by_udp_socket two_server_anjay (Some 77) = None"
    using t77 by blast
  have b: "anjay_servers_find_by_udp_socket two_server_anjay (Some 1252) = Some 1"
    by (simp add: anjay_servers_find_by_udp_socket_def anjay_servers_foreach_active_def
        two_server_anjay_servers find_by_udp_socket_clb_def)
       (simp add: two_server_anjay_facts [unfolded two_server_anjay_servers, simplified])
  have c: "anjay_connection_is_online
             (udp_connection (data_active (servers two_server_anjay ! 1)))"
    using t1252 b by blast
  show ?thesis by (intro conjI two_server_anjay_facts(2,3) a b c)
qed

section \<open>At most one pending Update job\<close>


















































end
